theory Spec2Isabelle
  imports Complex_Main "HOL-Library.Word"
begin

section \<open>Numbers, errors and the external numerical library\<close>

text \<open>
  Arguments, fields and cached values of type \<open>double\<close> are real numbers, and on them
  \<open>std::log\<close> is \<open>ln\<close>, \<open>std::exp\<close> is \<open>exp\<close>, \<open>std::sqrt\<close> is \<open>sqrt\<close>, \<open>std::abs\<close> and
  \<open>std::fabs\<close> are \<open>abs\<close>, \<open>M_PI\<close> is \<open>pi\<close>, and the arithmetic is exact: rounding is not
  modelled anywhere, and neither NaN nor an infinity is an argument of a factory or a cached
  value. Where the code takes the logarithm of a number that is not positive or divides by
  zero, its doubles are infinite or NaN, and the real number that the model has in their
  place says nothing about them; the functions for which a statement below depends on such
  a value are modelled on the doubles of the next paragraph.
  An \<open>unsigned\<close> is a 32-bit word, whose addition wraps around.
  An \<open>ObservableCache::Id\<close> indexes a vector and is modelled by a natural number.
\<close>

type_synonym unsigned = "32 word"

type_synonym Id = nat

text \<open>
  Where the code leaves the numbers, the result of an operation is a \<open>double\<close>: a number, an
  infinity or NaN. The operations on these values are those of IEEE 754 without rounding
  and with one zero, which has no sign: a sum of opposite infinities, a product of zero and
  an infinity and a quotient of two zeros or of two infinities are NaN, a number other than
  zero divided by zero is an infinity, and every comparison with NaN is false.
\<close>

datatype double = Finite real | PlusInfinity | MinusInfinity | NaN

fun double_neg :: "double \<Rightarrow> double" where
  "double_neg (Finite x) = Finite (- x)"
| "double_neg PlusInfinity = MinusInfinity"
| "double_neg MinusInfinity = PlusInfinity"
| "double_neg NaN = NaN"

fun double_add :: "double \<Rightarrow> double \<Rightarrow> double" where
  "double_add (Finite x) (Finite y) = Finite (x + y)"
| "double_add NaN y = NaN"
| "double_add x NaN = NaN"
| "double_add PlusInfinity MinusInfinity = NaN"
| "double_add MinusInfinity PlusInfinity = NaN"
| "double_add PlusInfinity y = PlusInfinity"
| "double_add x PlusInfinity = PlusInfinity"
| "double_add MinusInfinity y = MinusInfinity"
| "double_add x MinusInfinity = MinusInfinity"

definition double_sub :: "double \<Rightarrow> double \<Rightarrow> double" where
  "double_sub x y = double_add x (double_neg y)"

fun double_mul :: "double \<Rightarrow> double \<Rightarrow> double" where
  "double_mul (Finite x) (Finite y) = Finite (x * y)"
| "double_mul NaN y = NaN"
| "double_mul x NaN = NaN"
| "double_mul PlusInfinity (Finite y) = (if 0 < y then PlusInfinity else if y < 0 then MinusInfinity else NaN)"
| "double_mul MinusInfinity (Finite y) = (if 0 < y then MinusInfinity else if y < 0 then PlusInfinity else NaN)"
| "double_mul (Finite x) PlusInfinity = (if 0 < x then PlusInfinity else if x < 0 then MinusInfinity else NaN)"
| "double_mul (Finite x) MinusInfinity = (if 0 < x then MinusInfinity else if x < 0 then PlusInfinity else NaN)"
| "double_mul PlusInfinity PlusInfinity = PlusInfinity"
| "double_mul PlusInfinity MinusInfinity = MinusInfinity"
| "double_mul MinusInfinity PlusInfinity = MinusInfinity"
| "double_mul MinusInfinity MinusInfinity = PlusInfinity"

fun double_div :: "double \<Rightarrow> double \<Rightarrow> double" where
  "double_div (Finite x) (Finite y) =
     (if y \<noteq> 0 then Finite (x / y)
      else if 0 < x then PlusInfinity else if x < 0 then MinusInfinity else NaN)"
| "double_div NaN y = NaN"
| "double_div x NaN = NaN"
| "double_div (Finite x) PlusInfinity = Finite 0"
| "double_div (Finite x) MinusInfinity = Finite 0"
| "double_div PlusInfinity (Finite y) = (if 0 \<le> y then PlusInfinity else MinusInfinity)"
| "double_div MinusInfinity (Finite y) = (if 0 \<le> y then MinusInfinity else PlusInfinity)"
| "double_div PlusInfinity PlusInfinity = NaN"
| "double_div PlusInfinity MinusInfinity = NaN"
| "double_div MinusInfinity PlusInfinity = NaN"
| "double_div MinusInfinity MinusInfinity = NaN"

fun double_abs :: "double \<Rightarrow> double" where
  "double_abs (Finite x) = Finite \<bar>x\<bar>"
| "double_abs PlusInfinity = PlusInfinity"
| "double_abs MinusInfinity = PlusInfinity"
| "double_abs NaN = NaN"

fun double_sqrt :: "double \<Rightarrow> double" where
  "double_sqrt (Finite x) = (if 0 \<le> x then Finite (sqrt x) else NaN)"
| "double_sqrt PlusInfinity = PlusInfinity"
| "double_sqrt MinusInfinity = NaN"
| "double_sqrt NaN = NaN"

fun double_less :: "double \<Rightarrow> double \<Rightarrow> bool" where
  "double_less (Finite x) (Finite y) \<longleftrightarrow> x < y"
| "double_less NaN y \<longleftrightarrow> False"
| "double_less x NaN \<longleftrightarrow> False"
| "double_less PlusInfinity y \<longleftrightarrow> False"
| "double_less x PlusInfinity \<longleftrightarrow> True"
| "double_less x MinusInfinity \<longleftrightarrow> False"
| "double_less MinusInfinity y \<longleftrightarrow> True"

text \<open>
  \<open>std::pow\<close> on numbers. For a positive base it is \<open>powr\<close>. Zero to a positive power is
  zero, and to a negative power is a pole, reported as plus infinity. A negative base has a
  power only for an exponent that is an integer, with the sign of the base when the exponent
  is odd, and gives NaN for every other exponent. Every base to the power zero is 1.
\<close>

definition std_pow :: "real \<Rightarrow> real \<Rightarrow> double" where
  "std_pow x y =
     (if y = 0 then Finite 1
      else if 0 < x then Finite (x powr y)
      else if x = 0 then (if 0 < y then Finite 0 else PlusInfinity)
      else if of_int \<lfloor>y\<rfloor> = y then Finite ((if even \<lfloor>y\<rfloor> then 1 else - 1) * (- x) powr y)
      else NaN)"

text \<open>
  \<open>std::exp\<close> and \<open>std::log\<close> with the range of a double, for the statement that compares two
  ways of computing a sum of exponentials: the exponential of a number is plus infinity when
  it exceeds the largest finite double, \<open>std::numeric_limits<double>::max()\<close>, and zero
  when it is below \<open>1 / 2 ^ 1075\<close>, half of the smallest positive double; the logarithm of zero is
  minus infinity, that of a negative number is NaN.
\<close>

definition numeric_limits_double_max :: real where
  "numeric_limits_double_max = (2 - 1 / 2 ^ 52) * 2 ^ 1023"

definition std_exp :: "real \<Rightarrow> double" where
  "std_exp x =
     (if numeric_limits_double_max < exp x then PlusInfinity
      else if exp x < 1 / 2 ^ 1075 then Finite 0
      else Finite (exp x))"

fun std_log :: "double \<Rightarrow> double" where
  "std_log (Finite x) = (if 0 < x then Finite (ln x) else if x = 0 then MinusInfinity else NaN)"
| "std_log PlusInfinity = PlusInfinity"
| "std_log MinusInfinity = NaN"
| "std_log NaN = NaN"

text \<open>
  Exceptions are values: the class of the exception and its message. Where the source
  builds a message from numbers, the model keeps the fixed text of the message.
  \<open>GSLError\<close> is no exception: it stands for a call of the error handler of the GNU
  Scientific Library with the given reason. The handler that the library installs prints
  the reason and aborts the program; the first constructor of the LogGamma block switches
  the handler off around its call of the equation solver and restores it afterwards.
\<close>

datatype error = InternalError string | ObservableNameError string | GSLError string

text \<open>
  The functions of the GNU Scientific Library that the blocks call. The library is not part
  of the repository, so its functions are parameters of the model, collected in one record
  that every function calling into the library takes as its first argument. A matrix is the
  list of its rows.
\<close>

type_synonym gsl_vector = "real list"

type_synonym gsl_matrix = "real list list"

record gsl =
  gsl_sf_gamma_inc_Q :: "real \<Rightarrow> real \<Rightarrow> real"
  gsl_sf_gamma_inc_Q_e :: "real \<Rightarrow> real \<Rightarrow> int \<times> real"
  gsl_sf_lngamma :: "real \<Rightarrow> real"
  gsl_cdf_ugaussian_Pinv :: "real \<Rightarrow> real"
  gsl_cdf_gaussian_P :: "real \<Rightarrow> real \<Rightarrow> real"
  gsl_cdf_gaussian_Pinv :: "real \<Rightarrow> real \<Rightarrow> real"
  gsl_linalg_cholesky_decomp :: "gsl_matrix \<Rightarrow> gsl_matrix"
  gsl_linalg_cholesky_invert :: "gsl_matrix \<Rightarrow> gsl_matrix"
  gsl_linalg_LU_decomp :: "gsl_matrix \<Rightarrow> gsl_matrix"
  gsl_linalg_LU_lndet :: "gsl_matrix \<Rightarrow> real"

definition GSL_SUCCESS :: int where
  "GSL_SUCCESS = 0"

text \<open>
  The calls of the library with an argument that need not be a number in the domain of its
  function. What the library does there is no part of the repository either, and is taken
  from the documentation of the library: the regularized incomplete gamma function
  \<open>Q(a, x)\<close> is defined for \<open>a\<close> and \<open>x\<close> that are not negative, and for a negative argument
  the library calls its error handler with a domain error. A NaN is taken to pass through
  the library: it fails every comparison by which the library selects its method, and the
  result is NaN. An infinite argument, which no statement below meets, is treated likewise.
\<close>

definition gsl_sf_gamma_inc_Q_at :: "gsl \<Rightarrow> real \<Rightarrow> double \<Rightarrow> error + double" where
  "gsl_sf_gamma_inc_Q_at G a w =
     (case w of
        Finite x \<Rightarrow>
          if a < 0 \<or> x < 0 then Inl (GSLError ''domain error'')
          else Inr (Finite (gsl_sf_gamma_inc_Q G a x))
      | MinusInfinity \<Rightarrow> Inl (GSLError ''domain error'')
      | PlusInfinity \<Rightarrow> Inr NaN
      | NaN \<Rightarrow> Inr NaN)"


text \<open>
  An instance of the library, for the concrete instances of the theorems below (the theorems
  themselves hold for every library): the values of its functions at shape parameter 1,
  where \<open>Q(1, x) = exp (- x)\<close> and \<open>lngamma(1) = 0\<close>, at the centre of the normal
  distribution, where the distribution function is one half and its inverse at one half
  is 0, and on diagonal matrices, whose Cholesky factor, inverse and determinant are taken
  entry by entry along the diagonal. At other arguments the functions of the instance are
  not those of the library.
\<close>

definition gsl_at_shape_one :: gsl where
  "gsl_at_shape_one =
     \<lparr>gsl_sf_gamma_inc_Q = (\<lambda>a x. exp (- x)),
      gsl_sf_gamma_inc_Q_e = (\<lambda>a x. (GSL_SUCCESS, exp (- x))),
      gsl_sf_lngamma = (\<lambda>a. 0),
      gsl_cdf_ugaussian_Pinv = (\<lambda>q. q - 1 / 2),
      gsl_cdf_gaussian_P = (\<lambda>x sigma. 1 / 2),
      gsl_cdf_gaussian_Pinv = (\<lambda>P sigma. 0),
      gsl_linalg_cholesky_decomp = map (map sqrt),
      gsl_linalg_cholesky_invert = map (map (\<lambda>x. if x = 0 then 0 else 1 / (x * x))),
      gsl_linalg_LU_decomp = (\<lambda>M. M),
      gsl_linalg_LU_lndet = (\<lambda>M. \<Sum>i \<leftarrow> [0 ..< length M]. ln \<bar>M ! i ! i\<bar>)\<rparr>"


text \<open>
  Modelled from the spec: \<open>power_of<2>\<close> (eos/utils/power_of.hh is not under src/), the
  square of its argument: the spec writes the result of \<open>evaluate()\<close> as norm minus half of
  chi squared.
\<close>

definition power_of_2 :: "real \<Rightarrow> real" where
  "power_of_2 x = x * x"

section \<open>The observable cache\<close>

text \<open>
  Modelled from the spec: \<open>Observable\<close> and \<open>ObservableCache\<close> (eos/observable.hh and
  eos/utils/observable_cache.hh are not under src/). An observable is a function of the
  parameter values; \<open>clone(parameters)\<close> binds the same function to other parameter storage,
  so a cloned observable is the same function. \<open>add\<close> registers an observable and returns
  its id, duplicates get distinct ids; \<open>update()\<close> recomputes every registered observable
  from the current parameter values; indexing returns the value last computed for an id and
  computes nothing. The slot of an id that was never updated holds whatever the state
  holds there: the spec leaves it open.
\<close>

type_synonym 'p Observable = "'p \<Rightarrow> real"

record 'p ObservableCache =
  cache_parameters :: 'p
  cache_observables :: "'p Observable list"
  cache_predictions :: "Id \<Rightarrow> real"

definition ObservableCache_add :: "'p ObservableCache \<Rightarrow> 'p Observable \<Rightarrow> Id \<times> 'p ObservableCache" where
  "ObservableCache_add cache observable =
     (length (cache_observables cache),
      cache\<lparr>cache_observables := cache_observables cache @ [observable]\<rparr>)"

definition ObservableCache_update :: "'p ObservableCache \<Rightarrow> 'p ObservableCache" where
  "ObservableCache_update cache =
     cache\<lparr>cache_predictions :=
       (\<lambda>i. if i < length (cache_observables cache)
            then (cache_observables cache ! i) (cache_parameters cache)
            else cache_predictions cache i)\<rparr>"

definition ObservableCache_index :: "'p ObservableCache \<Rightarrow> Id \<Rightarrow> real" where
  "ObservableCache_index cache i = cache_predictions cache i"

definition ObservableCache_observable :: "'p ObservableCache \<Rightarrow> Id \<Rightarrow> 'p Observable" where
  "ObservableCache_observable cache i = cache_observables cache ! i"

definition Observable_clone :: "'p Observable \<Rightarrow> 'p \<Rightarrow> 'p Observable" where
  "Observable_clone observable parameters = observable"

section \<open>The Gaussian block\<close>

text \<open>
  \<open>struct GaussianBlock\<close>. The block's handle on the cache is not a field of the record: the
  state of the cache is an argument of every function that reads it. The fields carry the
  prefix \<open>G_\<close>, since the other blocks have fields of the same names.
\<close>

record GaussianBlock =
  G_id :: Id
  G_mode :: real
  G_sigma_lower :: real
  G_sigma_upper :: real
  G_c_upper :: real
  G_c_lower :: real
  G_norm :: real
  G_number_of_observations :: unsigned

definition GaussianBlock_ctor :: "Id \<Rightarrow> real \<Rightarrow> real \<Rightarrow> real \<Rightarrow> unsigned \<Rightarrow> GaussianBlock" where
  "GaussianBlock_ctor i minimum central maximum number_of_observations =
     (let sigma_lower = central - minimum;
          sigma_upper = maximum - central;
          c_upper = 2 * sigma_upper / (sigma_upper + sigma_lower)
      in \<lparr>G_id = i,
          G_mode = central,
          G_sigma_lower = sigma_lower,
          G_sigma_upper = sigma_upper,
          G_c_upper = c_upper,
          G_c_lower = sigma_lower / sigma_upper * c_upper,
          G_norm = ln (sqrt (2 / pi) / (sigma_upper + sigma_lower)),
          G_number_of_observations = number_of_observations\<rparr>)"

definition GaussianBlock_evaluate :: "'p ObservableCache \<Rightarrow> GaussianBlock \<Rightarrow> real" where
  "GaussianBlock_evaluate cache b =
     (let value = ObservableCache_index cache (G_id b);
          sigma = (if value > G_mode b then G_sigma_upper b else G_sigma_lower b);
          chi = (value - G_mode b) / sigma
      in G_norm b - power_of_2 chi / 2)"

definition GaussianBlock_significance :: "'p ObservableCache \<Rightarrow> GaussianBlock \<Rightarrow> real" where
  "GaussianBlock_significance cache b =
     (let value = ObservableCache_index cache (G_id b);
          sigma = (if value > G_mode b then G_sigma_upper b else G_sigma_lower b)
      in (G_mode b - value) / sigma)"

text \<open>
  \<open>LogLikelihoodBlock::Gaussian\<close>, the factory: it checks the order of its arguments,
  registers the observable and constructs the block. Every factory returns the exception or
  the block, and the state in which it leaves the cache: a factory that throws after it has
  registered the observable leaves the observable in the cache.
\<close>

definition LogLikelihoodBlock_Gaussian ::
  "'p ObservableCache \<Rightarrow> 'p Observable \<Rightarrow> real \<Rightarrow> real \<Rightarrow> real \<Rightarrow> unsigned
     \<Rightarrow> (error + GaussianBlock) \<times> 'p ObservableCache" where
  "LogLikelihoodBlock_Gaussian cache observable minimum central maximum number_of_observations =
     (if minimum \<ge> central
        then (Inl (InternalError ''LogLikelihoodBlock::Gaussian: min value >= central value''), cache)
      else if maximum \<le> central
        then (Inl (InternalError ''LogLikelihoodBlock::Gaussian: max value <= central value''), cache)
      else (let (index, cache') = ObservableCache_add cache observable
            in (Inr (GaussianBlock_ctor index minimum central maximum number_of_observations), cache')))"

section \<open>The Amoroso block\<close>

text \<open>
  \<open>struct AmorosoBlock\<close>; its fields carry the prefix \<open>A_\<close>. The constructor returns blocks
  with positive \<open>theta\<close>, \<open>alpha\<close> and \<open>beta\<close> only, and the functions of the block are
  modelled for such blocks: none of them divides by zero there.
\<close>

record AmorosoBlock =
  A_id :: Id
  A_physical_limit :: real
  A_theta :: real
  A_alpha :: real
  A_beta :: real
  A_norm :: real
  A_number_of_observations :: unsigned

definition AmorosoBlock_ctor ::
  "gsl \<Rightarrow> Id \<Rightarrow> real \<Rightarrow> real \<Rightarrow> real \<Rightarrow> real \<Rightarrow> unsigned \<Rightarrow> error + AmorosoBlock" where
  "AmorosoBlock_ctor G i physical_limit theta alpha beta number_of_observations =
     (if theta \<le> 0
        then Inl (InternalError ''LogLikelihoodBlock::Amoroso: scale parameter theta must be positive for an upper limit'')
      else if alpha \<le> 0
        then Inl (InternalError ''LogLikelihoodBlock::Amoroso: shape parameter alpha must be positive'')
      else if beta \<le> 0
        then Inl (InternalError ''LogLikelihoodBlock::Amoroso: shape parameter beta must be positive'')
      else Inr \<lparr>A_id = i,
                A_physical_limit = physical_limit,
                A_theta = theta,
                A_alpha = alpha,
                A_beta = beta,
                A_norm = - 1 * gsl_sf_lngamma G alpha + ln \<bar>beta / theta\<bar>,
                A_number_of_observations = number_of_observations\<rparr>)"

text \<open>
  \<open>AmorosoBlock::cdf\<close>. For an argument below the physical limit the base of \<open>std::pow\<close> is
  negative, so that \<open>w\<close> is NaN, or a negative number when \<open>beta\<close> is an odd integer, and
  the library is called with it.
\<close>

definition AmorosoBlock_cdf :: "gsl \<Rightarrow> AmorosoBlock \<Rightarrow> real \<Rightarrow> error + double" where
  "AmorosoBlock_cdf G a x =
     (let w = std_pow ((x - A_physical_limit a) / A_theta a) (A_beta a)
      in if A_beta a / A_theta a < 0
         then gsl_sf_gamma_inc_Q_at G (A_alpha a) w
         else (case gsl_sf_gamma_inc_Q_at G (A_alpha a) w of
                 Inl e \<Rightarrow> Inl e
               | Inr q \<Rightarrow> Inr (double_sub (Finite 1) q)))"

definition AmorosoBlock_evaluate :: "'p ObservableCache \<Rightarrow> AmorosoBlock \<Rightarrow> real" where
  "AmorosoBlock_evaluate cache a =
     (let z = (ObservableCache_index cache (A_id a) - A_physical_limit a) / A_theta a
      in A_norm a + (A_alpha a * A_beta a - 1) * ln z - z powr A_beta a)"

text \<open>\<open>AmorosoBlock::mode\<close>: for \<open>alpha < 1 / beta\<close> the base of \<open>std::pow\<close> is negative, and
  the mode is NaN unless \<open>1 / beta\<close> is an integer.\<close>

definition AmorosoBlock_mode :: "AmorosoBlock \<Rightarrow> double" where
  "AmorosoBlock_mode a =
     double_add (Finite (A_physical_limit a))
       (double_mul (Finite (A_theta a)) (std_pow (A_alpha a - 1 / A_beta a) (1 / A_beta a)))"









definition LogLikelihoodBlock_AmorosoMode ::
  "gsl \<Rightarrow> 'p ObservableCache \<Rightarrow> 'p Observable \<Rightarrow> real \<Rightarrow> real \<Rightarrow> real \<Rightarrow> real \<Rightarrow> real \<Rightarrow> real \<Rightarrow> real
     \<Rightarrow> unsigned \<Rightarrow> (error + AmorosoBlock) \<times> 'p ObservableCache" where
  "LogLikelihoodBlock_AmorosoMode G cache observable physical_limit mode upper_limit_90 upper_limit_95
       theta alpha beta number_of_observations =
     (if mode \<le> physical_limit
        then (Inl (InternalError ''LogLikelihoodBlock::AmorosoLimit: upper_limit_5 <= physical_limit''), cache)
      else if upper_limit_90 \<le> physical_limit
        then (Inl (InternalError ''LogLikelihoodBlock::AmorosoLimit: upper_limit_90 <= physical_limit''), cache)
      else if upper_limit_95 \<le> upper_limit_90
        then (Inl (InternalError ''LogLikelihoodBlock::AmorosoLimit: upper_limit_95 <= upper_limit_90''), cache)
      else (let (index, cache') = ObservableCache_add cache observable
            in case AmorosoBlock_ctor G index physical_limit theta alpha beta number_of_observations of
                 Inl e \<Rightarrow> (Inl e, cache')
               | Inr a \<Rightarrow>
                   if double_less (Finite (1 / 10 ^ 4)) (double_abs (double_sub (AmorosoBlock_mode a) (Finite mode)))
                     then (Inl (InternalError ''LogLikelihood::Amoroso.ctor: Amoroso::mode() deviates from mode supplied''), cache')
                   else
                     (case AmorosoBlock_cdf G a upper_limit_90 of
                        Inl e \<Rightarrow> (Inl e, cache')
                      | Inr cdf_90 \<Rightarrow>
                          if double_less (Finite (1 / 10 ^ 4)) (double_abs (double_sub cdf_90 (Finite (90 / 100))))
                            then (Inl (InternalError ''LogLikelihood::Amoroso.ctor: cdf(x_90) deviates from 90%''), cache')
                          else
                            (case AmorosoBlock_cdf G a upper_limit_95 of
                               Inl e \<Rightarrow> (Inl e, cache')
                             | Inr cdf_95 \<Rightarrow>
                                 if double_less (Finite (1 / 10 ^ 4)) (double_abs (double_sub cdf_95 (Finite (95 / 100))))
                                   then (Inl (InternalError ''LogLikelihood::Amoroso.ctor: cdf(x_95) deviates from 95%''), cache')
                                 else (Inr a, cache')))))"


definition LogLikelihoodBlock_Amoroso ::
  "gsl \<Rightarrow> 'p ObservableCache \<Rightarrow> 'p Observable \<Rightarrow> real \<Rightarrow> real \<Rightarrow> real \<Rightarrow> real \<Rightarrow> unsigned
     \<Rightarrow> (error + AmorosoBlock) \<times> 'p ObservableCache" where
  "LogLikelihoodBlock_Amoroso G cache observable physical_limit theta alpha beta number_of_observations =
     (let (index, cache') = ObservableCache_add cache observable
      in (AmorosoBlock_ctor G index physical_limit theta alpha beta number_of_observations, cache'))"

section \<open>The LogGamma block\<close>

text \<open>
  \<open>struct LogGammaBlock\<close>; its fields carry the prefix \<open>L_\<close>. Messages to the log are not
  modelled: the two constructors warn about nearly symmetric uncertainties and then go on.
  The functions of the block divide by \<open>lambda\<close>. For \<open>lambda = 0\<close> the quotients of the
  code are infinite or NaN, and \<open>cdf\<close> calls the library with an infinite argument or with
  zero; the real numbers of the model say nothing about that case.
\<close>

record LogGammaBlock =
  L_id :: Id
  L_central :: real
  L_sigma_lower :: real
  L_sigma_upper :: real
  L_nu :: real
  L_lambda :: real
  L_alpha :: real
  L_norm :: real
  L_number_of_observations :: unsigned

definition LogGammaBlock_cdf :: "gsl \<Rightarrow> LogGammaBlock \<Rightarrow> real \<Rightarrow> real" where
  "LogGammaBlock_cdf G b x =
     (let z = exp ((x - L_nu b) / L_lambda b)
      in if L_lambda b < 0
         then gsl_sf_gamma_inc_Q G (L_alpha b) z
         else 1 - gsl_sf_gamma_inc_Q G (L_alpha b) z)"

definition one_sigma_coverage :: real where
  "one_sigma_coverage = 68268949213708585 / 10 ^ 17"

text \<open>\<open>LogGammaBlock::constraint\<close>, the function that the first constructor hands to the
  equation solver.\<close>

definition LogGammaBlock_constraint :: "gsl \<Rightarrow> real list \<Rightarrow> real \<Rightarrow> real \<Rightarrow> error + real" where
  "LogGammaBlock_constraint G parameters sigma_plus sigma_minus =
     (if length parameters \<noteq> 2
        then Inl (InternalError ''LogLikelihoodBlock::LogGamma.constraint: parameter dimension should be 2.'')
      else
        (let lambda = parameters ! 0;
             alpha = parameters ! 1;
             nu = 0 - lambda * ln alpha;
             z_plus = (sigma_plus - nu) / lambda;
             z_minus = (- sigma_minus - nu) / lambda;
             first = \<bar>alpha * z_plus - exp z_plus - alpha * z_minus + exp z_minus\<bar>;
             (ret_code, cdf_plus) = gsl_sf_gamma_inc_Q_e G alpha (exp z_plus)
         in if GSL_SUCCESS \<noteq> ret_code
              then Inl (InternalError ''LogLikelihoodBlock::LogGamma: cannot evaluate cumulative'')
            else
              (let (ret_code, cdf_minus) = gsl_sf_gamma_inc_Q_e G alpha (exp z_minus)
               in if GSL_SUCCESS \<noteq> ret_code
                    then Inl (InternalError ''LogLikelihoodBlock::LogGamma: cannot evaluate cumulative'')
                  else
                    (let second = \<bar>(cdf_plus - cdf_minus) - one_sigma_coverage\<bar>
                     in Inr (first + second)))))"

text \<open>
  Modelled from the spec: \<open>EquationSolver\<close> (eos/utils/equation_solver.hh is not under
  src/), the constrained least-squares search of the spec. It is a parameter of the model:
  given the parameters added to it (name, initial value, error and, for a bounded parameter,
  its bounds) and the constraint to minimise, \<open>solve()\<close> returns a solution, or lets an
  exception of the constraint pass. A solution need not be valid.
\<close>

record Solution =
  solution_valid :: bool
  solution_value :: real
  solution_parameters :: "real list"

type_synonym EquationSolver =
  "(string \<times> real \<times> real \<times> (real \<times> real) option) list \<Rightarrow> (real list \<Rightarrow> error + real) \<Rightarrow> error + Solution"

text \<open>
  The first constructor: the shape parameters are those that the solver returns. A solution
  that is not valid is reported to the log and used all the same.
\<close>

definition LogGammaBlock_ctor ::
  "gsl \<Rightarrow> EquationSolver \<Rightarrow> Id \<Rightarrow> real \<Rightarrow> real \<Rightarrow> real \<Rightarrow> unsigned \<Rightarrow> error + LogGammaBlock" where
  "LogGammaBlock_ctor G solve i minimum central maximum number_of_observations =
     (let sigma_lower = central - minimum;
          sigma_upper = maximum - central;
          sigma_plus = (if sigma_upper > sigma_lower then sigma_upper / sigma_lower else sigma_lower / sigma_upper);
          sigma_minus = 1;
          lambda_scale_factor =
            (if sigma_upper > sigma_lower then sigma_lower / sigma_minus else - 1 * sigma_upper / sigma_minus);
          lambda_initial = - 56 + 55 * gsl_cdf_gaussian_P G (sigma_plus - 1) (5 / 100);
          alpha_initial = (113 / 100 / (sigma_plus - 1)) powr (13 / 10)
      in case solve [(''lambda'', lambda_initial, lambda_initial / 10, None),
                     (''alpha'', alpha_initial, alpha_initial / 5, Some (0, 1000))]
                    (\<lambda>parameters. LogGammaBlock_constraint G parameters sigma_plus sigma_minus) of
           Inl e \<Rightarrow> Inl e
         | Inr solution \<Rightarrow>
             (let lambda = lambda_scale_factor * (solution_parameters solution ! 0);
                  alpha = solution_parameters solution ! 1
              in Inr \<lparr>L_id = i,
                       L_central = central,
                       L_sigma_lower = sigma_lower,
                       L_sigma_upper = sigma_upper,
                       L_nu = central - lambda * ln alpha,
                       L_lambda = lambda,
                       L_alpha = alpha,
                       L_norm = - 1 * gsl_sf_lngamma G alpha - ln \<bar>lambda\<bar>,
                       L_number_of_observations = number_of_observations\<rparr>))"

text \<open>
  The second constructor takes \<open>lambda\<close> and \<open>alpha\<close> and checks them: the interval between
  the two bounds holds the one-sigma coverage, and the density is the same at the two bounds,
  both to within \<open>eps = 1e-4\<close>. The checks read \<open>nu\<close>, \<open>lambda\<close> and \<open>alpha\<close> only, which the
  initialiser list has set; \<open>norm\<close> is set last.
\<close>

definition LogGammaBlock_ctor_explicit ::
  "gsl \<Rightarrow> Id \<Rightarrow> real \<Rightarrow> real \<Rightarrow> real \<Rightarrow> real \<Rightarrow> real \<Rightarrow> unsigned \<Rightarrow> error + LogGammaBlock" where
  "LogGammaBlock_ctor_explicit G i minimum central maximum lambda alpha number_of_observations =
     (let b = \<lparr>L_id = i,
               L_central = central,
               L_sigma_lower = central - minimum,
               L_sigma_upper = maximum - central,
               L_nu = central - lambda * ln alpha,
               L_lambda = lambda,
               L_alpha = alpha,
               L_norm = - 1 * gsl_sf_lngamma G alpha - ln \<bar>lambda\<bar>,
               L_number_of_observations = number_of_observations\<rparr>;
          eps = 1 / 10 ^ 4
      in if \<bar>LogGammaBlock_cdf G b (L_central b + L_sigma_upper b)
              - LogGammaBlock_cdf G b (L_central b - L_sigma_lower b) - one_sigma_coverage\<bar> > eps
           then Inl (InternalError ''LogLikelihoodBlock::LogGamma.ctor: the interval [lower, upper] doesn't contain approx. 68%'')
         else
           (let z_plus = (L_central b + L_sigma_upper b - L_nu b) / L_lambda b;
                z_minus = (L_central b - L_sigma_lower b - L_nu b) / L_lambda b
            in if \<bar>L_alpha b * z_plus - exp z_plus - L_alpha b * z_minus + exp z_minus\<bar> > eps
                 then Inl (InternalError ''LogLikelihoodBlock::LogGamma.ctor: the probability density at lower is not equal to the probability density at upper'')
               else Inr b))"

definition LogGammaBlock_evaluate :: "'p ObservableCache \<Rightarrow> LogGammaBlock \<Rightarrow> real" where
  "LogGammaBlock_evaluate cache b =
     (let value = (ObservableCache_index cache (L_id b) - L_nu b) / L_lambda b
      in L_norm b + L_alpha b * value - exp value)"

text \<open>The two factories of LogGamma blocks.\<close>

definition LogLikelihoodBlock_LogGamma ::
  "gsl \<Rightarrow> EquationSolver \<Rightarrow> 'p ObservableCache \<Rightarrow> 'p Observable \<Rightarrow> real \<Rightarrow> real \<Rightarrow> real \<Rightarrow> unsigned
     \<Rightarrow> (error + LogGammaBlock) \<times> 'p ObservableCache" where
  "LogLikelihoodBlock_LogGamma G solve cache observable minimum central maximum number_of_observations =
     (if minimum \<ge> central
        then (Inl (InternalError ''LogLikelihoodBlock::LogGamma: min value >= central value''), cache)
      else if maximum \<le> central
        then (Inl (InternalError ''LogLikelihoodBlock::LogGamma: max value <= central value''), cache)
      else (let (index, cache') = ObservableCache_add cache observable
            in (LogGammaBlock_ctor G solve index minimum central maximum number_of_observations, cache')))"


section \<open>The multivariate Gaussian block\<close>

text \<open>
  Vectors and matrices of the library: a vector is a list, a matrix the list of its rows.
  The elementary operations have their textbook meaning and are defined here; the
  decompositions are parameters (fields of the record \<open>gsl\<close>).
\<close>

definition gsl_matrix_size1 :: "gsl_matrix \<Rightarrow> nat" where
  "gsl_matrix_size1 M = length M"

definition gsl_matrix_size2 :: "gsl_matrix \<Rightarrow> nat" where
  "gsl_matrix_size2 M = (case M of [] \<Rightarrow> 0 | row # rows \<Rightarrow> length row)"

definition gsl_vector_sub :: "gsl_vector \<Rightarrow> gsl_vector \<Rightarrow> gsl_vector" where
  "gsl_vector_sub a b = map (\<lambda>(x, y). x - y) (zip a b)"

definition gsl_blas_ddot :: "gsl_vector \<Rightarrow> gsl_vector \<Rightarrow> real" where
  "gsl_blas_ddot x y = (\<Sum>(a, b) \<leftarrow> zip x y. a * b)"

text \<open>\<open>gsl_blas_dgemv(CblasNoTrans, 1.0, A, x, 0.0, y)\<close>: the product of \<open>A\<close> and \<open>x\<close>.\<close>

definition gsl_blas_dgemv :: "gsl_matrix \<Rightarrow> gsl_vector \<Rightarrow> gsl_vector" where
  "gsl_blas_dgemv A x = map (\<lambda>row. gsl_blas_ddot row x) A"

text \<open>
  \<open>struct MultivariateGaussianBlock\<close>; its fields carry the prefix \<open>M_\<close>. The two vectors of
  temporary storage are not fields of the record.
\<close>

record MultivariateGaussianBlock =
  M_ids :: "Id list"
  M_mean :: gsl_vector
  M_covariance :: gsl_matrix
  M_number_of_observations :: unsigned
  M_norm :: real
  M_chol :: gsl_matrix
  M_covariance_inv :: gsl_matrix

definition MultivariateGaussianBlock_compute_norm :: "gsl \<Rightarrow> gsl_vector \<Rightarrow> gsl_matrix \<Rightarrow> real" where
  "MultivariateGaussianBlock_compute_norm G mean covariance =
     (let k = length mean;
          M = gsl_linalg_LU_decomp G covariance;
          log_det = gsl_linalg_LU_lndet G M
      in - (1 / 2) * real k * ln (2 * pi) - (1 / 2) * log_det)"

text \<open>The loop of the constructor that keeps the lower and the diagonal parts of the Cholesky
  matrix and sets the upper part to zero.\<close>

definition zero_upper_part :: "gsl_matrix \<Rightarrow> gsl_matrix" where
  "zero_upper_part M =
     map (\<lambda>(i, row). map (\<lambda>(j, x). if i < j then 0 else x) (zip [0 ..< length row] row))
       (zip [0 ..< length M] M)"

text \<open>
  The constructor. The initialiser list computes \<open>norm\<close> before the body checks the
  dimensions: \<open>compute_norm\<close> copies the covariance with \<open>gsl_matrix_memcpy\<close> into a square
  matrix of the size of the mean, and the library reports a covariance of any other size to
  its error handler, so that the checks of the body are reached with a covariance of that
  size only. The Cholesky matrix is decomposed from a copy of the covariance, and the
  inverse is computed from a copy of the decomposition, before the upper part is set to zero.
\<close>

definition MultivariateGaussianBlock_ctor ::
  "gsl \<Rightarrow> Id list \<Rightarrow> gsl_vector \<Rightarrow> gsl_matrix \<Rightarrow> unsigned \<Rightarrow> error + MultivariateGaussianBlock" where
  "MultivariateGaussianBlock_ctor G ids mean covariance number_of_observations =
     (if gsl_matrix_size1 covariance \<noteq> length mean \<or> gsl_matrix_size2 covariance \<noteq> length mean
        then Inl (GSLError ''matrix sizes are different'')
      else
        (let norm = MultivariateGaussianBlock_compute_norm G mean covariance;
             k = length ids
         in if k \<noteq> length mean
              then Inl (InternalError ''MultivariateGaussianBlock: dimensions of observables and mean are not identical'')
            else if gsl_matrix_size1 covariance \<noteq> gsl_matrix_size2 covariance
              then Inl (InternalError ''MultivariateGaussianBlock: covariance matrix is not a square matrix'')
            else if k \<noteq> gsl_matrix_size1 covariance
              then Inl (InternalError ''MultivariateGaussianBlock: dimensions of observables and covariance matrix are not identical'')
            else (let chol = gsl_linalg_cholesky_decomp G covariance;
                      covariance_inv = gsl_linalg_cholesky_invert G chol
                  in Inr \<lparr>M_ids = ids,
                           M_mean = mean,
                           M_covariance = covariance,
                           M_number_of_observations = number_of_observations,
                           M_norm = norm,
                           M_chol = zero_upper_part chol,
                           M_covariance_inv = covariance_inv\<rparr>)))"

definition MultivariateGaussianBlock_chi_square :: "'p ObservableCache \<Rightarrow> MultivariateGaussianBlock \<Rightarrow> real" where
  "MultivariateGaussianBlock_chi_square cache b =
     (let observables = map (\<lambda>i. ObservableCache_index cache (M_ids b ! i)) [0 ..< length (M_mean b)];
          observables = gsl_vector_sub observables (M_mean b);
          observables_2 = gsl_blas_dgemv (M_covariance_inv b) observables
      in gsl_blas_ddot observables observables_2)"

definition MultivariateGaussianBlock_evaluate :: "'p ObservableCache \<Rightarrow> MultivariateGaussianBlock \<Rightarrow> real" where
  "MultivariateGaussianBlock_evaluate cache b =
     M_norm b - (1 / 2) * MultivariateGaussianBlock_chi_square cache b"

fun register_observables :: "'p ObservableCache \<Rightarrow> 'p Observable list \<Rightarrow> Id list \<times> 'p ObservableCache" where
  "register_observables cache [] = ([], cache)"
| "register_observables cache (observable # observables) =
     (let (index, cache') = ObservableCache_add cache observable;
          (indices, cache'') = register_observables cache' observables
      in (index # indices, cache''))"

definition LogLikelihoodBlock_MultivariateGaussian ::
  "gsl \<Rightarrow> 'p ObservableCache \<Rightarrow> 'p Observable list \<Rightarrow> gsl_vector \<Rightarrow> gsl_matrix \<Rightarrow> unsigned
     \<Rightarrow> (error + MultivariateGaussianBlock) \<times> 'p ObservableCache" where
  "LogLikelihoodBlock_MultivariateGaussian G cache observables mean covariance number_of_observations =
     (let (indices, cache') = register_observables cache observables
      in (MultivariateGaussianBlock_ctor G indices mean covariance number_of_observations, cache'))"

text \<open>
  For the statement about diagonal covariance matrices: the diagonal matrix with given
  entries, and what the statement asks of the library's decompositions on it, namely that
  the inverse computed through the Cholesky decomposition is the diagonal matrix of the
  inverse entries, and that the logarithm of the determinant computed through the LU
  decomposition is the sum of the logarithms of the entries. Both hold of the library for
  positive entries.
\<close>

definition diagonal_matrix :: "real list \<Rightarrow> gsl_matrix" where
  "diagonal_matrix d = map (\<lambda>i. map (\<lambda>j. if i = j then d ! i else 0) [0 ..< length d]) [0 ..< length d]"

definition gsl_linalg_diagonal_contract :: "gsl \<Rightarrow> real list \<Rightarrow> bool" where
  "gsl_linalg_diagonal_contract G d \<longleftrightarrow>
     gsl_linalg_cholesky_invert G (gsl_linalg_cholesky_decomp G (diagonal_matrix d))
       = diagonal_matrix (map (\<lambda>x. 1 / x) d)
     \<and> gsl_linalg_LU_lndet G (gsl_linalg_LU_decomp G (diagonal_matrix d)) = (\<Sum>x \<leftarrow> d. ln x)"

section \<open>The blocks as one type, and the mixture block\<close>

text \<open>
  The class \<open>LogLikelihoodBlock\<close> with its five implementations. \<open>struct MixtureBlock\<close> holds
  its components and its weights; its vector \<open>temp\<close> is scratch storage of \<open>evaluate()\<close>, as
  long as the weights and zero at construction.
\<close>

datatype LogLikelihoodBlock =
    Block_Gaussian GaussianBlock
  | Block_LogGamma LogGammaBlock
  | Block_Amoroso AmorosoBlock
  | MixtureBlock "LogLikelihoodBlock list" "real list"
  | Block_MultivariateGaussian MultivariateGaussianBlock

text \<open>\<open>std::max_element\<close>: the first largest element; on an empty range it returns the end
  of the range, which \<open>evaluate()\<close> then dereferences.\<close>

fun max_element :: "real list \<Rightarrow> real option" where
  "max_element [] = None"
| "max_element (x # xs) = Some (foldl (\<lambda>largest v. if largest < v then v else largest) x xs)"

text \<open>
  The arithmetic of \<open>MixtureBlock::evaluate\<close> on the values of the components. The first
  loop writes one value for each component into \<open>temp\<close>, which has the length of the
  weights: with more components than weights it writes past the end. Undefined behaviour is
  the value \<open>None\<close>.
\<close>

definition MixtureBlock_log_sum_exp :: "real list \<Rightarrow> real list \<Rightarrow> real option" where
  "MixtureBlock_log_sum_exp values weights =
     (if length values > length weights then None
      else
        (let temp = values @ replicate (length weights - length values) 0
         in case max_element temp of
              None \<Rightarrow> None
            | Some max_val \<Rightarrow>
                (let ret_val = foldl (\<lambda>ret_val (w, v). ret_val + w * exp (v - max_val)) 0 (zip weights temp)
                 in Some (ln ret_val + max_val))))"

fun those_values :: "real option list \<Rightarrow> real list option" where
  "those_values [] = Some []"
| "those_values (None # vs) = None"
| "those_values (Some v # vs) = map_option ((#) v) (those_values vs)"

fun evaluate :: "'p ObservableCache \<Rightarrow> LogLikelihoodBlock \<Rightarrow> real option" where
  "evaluate cache (Block_Gaussian b) = Some (GaussianBlock_evaluate cache b)"
| "evaluate cache (Block_LogGamma b) = Some (LogGammaBlock_evaluate cache b)"
| "evaluate cache (Block_Amoroso b) = Some (AmorosoBlock_evaluate cache b)"
| "evaluate cache (MixtureBlock components weights) =
     (case those_values (map (evaluate cache) components) of
        None \<Rightarrow> None
      | Some values \<Rightarrow> MixtureBlock_log_sum_exp values weights)"
| "evaluate cache (Block_MultivariateGaussian b) = Some (MultivariateGaussianBlock_evaluate cache b)"

fun number_of_observations :: "LogLikelihoodBlock \<Rightarrow> unsigned" where
  "number_of_observations (Block_Gaussian b) = G_number_of_observations b"
| "number_of_observations (Block_LogGamma b) = L_number_of_observations b"
| "number_of_observations (Block_Amoroso b) = A_number_of_observations b"
| "number_of_observations (MixtureBlock components weights) =
     foldl (\<lambda>ret_val c. ret_val + number_of_observations c) 0 components"
| "number_of_observations (Block_MultivariateGaussian b) = M_number_of_observations b"

text \<open>
  \<open>LogLikelihoodBlock::Mixture\<close>, the factory: it compares the two lengths and divides every
  weight by the sum of the weights. A sum of zero is not checked: the doubles of the source
  then become infinite or NaN, which the real weights of the model cannot show, so the model
  says nothing about the values of such weights.
\<close>

definition LogLikelihoodBlock_Mixture :: "LogLikelihoodBlock list \<Rightarrow> real list \<Rightarrow> error + LogLikelihoodBlock" where
  "LogLikelihoodBlock_Mixture components weights =
     (if length components \<noteq> length weights
        then Inl (InternalError ''LogLikelihoodBlock::Mixture(): components and weights don't match'')
      else
        (let sum = foldl (\<lambda>sum w. sum + w) 0 weights;
             norm_weights = map (\<lambda>w. (1 / sum) * w) weights
         in Inr (MixtureBlock components norm_weights)))"

text \<open>
  The arithmetic of \<open>MixtureBlock::evaluate\<close> once more, on doubles with their range, for the
  statement that compares it with the plain computation: the values of the components are
  numbers, \<open>std::exp\<close> and \<open>std::log\<close> are those of doubles, and the sum is a sum of doubles.
\<close>

definition MixtureBlock_log_sum_exp_double :: "real list \<Rightarrow> real list \<Rightarrow> double option" where
  "MixtureBlock_log_sum_exp_double values weights =
     (if length values > length weights then None
      else
        (let temp = values @ replicate (length weights - length values) 0
         in case max_element temp of
              None \<Rightarrow> None
            | Some max_val \<Rightarrow>
                (let ret_val = foldl (\<lambda>ret_val (w, v). double_add ret_val (double_mul (Finite w) (std_exp (v - max_val))))
                                 (Finite 0) (zip weights temp)
                 in Some (double_add (std_log ret_val) (Finite max_val)))))"

text \<open>
  The plain computation in the words of the spec, to compare the log-sum-exp computation
  with: the logarithm of the sum of the weights times the exponentials of the values, in the
  same arithmetic.
\<close>

definition plain_log_sum_exp :: "real list \<Rightarrow> real list \<Rightarrow> double" where
  "plain_log_sum_exp values weights =
     std_log (foldl (\<lambda>sum (w, v). double_add sum (double_mul (Finite w) (std_exp v))) (Finite 0)
                (zip weights values))"

section \<open>The observable factory\<close>

text \<open>
  The operations of \<open>std::string\<close> that \<open>Observable::make\<close> calls. A position is a natural
  number, \<open>std::string::npos\<close> is \<open>None\<close>. \<open>substr\<close> is called with positions inside the
  string only, where it throws nothing.
\<close>

fun rfind :: "string \<Rightarrow> char \<Rightarrow> nat option" where
  "rfind [] c = None"
| "rfind (x # xs) c =
     (case rfind xs c of
        Some pos \<Rightarrow> Some (Suc pos)
      | None \<Rightarrow> if x = c then Some 0 else None)"

fun find_first :: "string \<Rightarrow> char \<Rightarrow> nat option" where
  "find_first [] c = None"
| "find_first (x # xs) c = (if x = c then Some 0 else map_option Suc (find_first xs c))"

definition find_from :: "string \<Rightarrow> char \<Rightarrow> nat \<Rightarrow> nat option" where
  "find_from s c pos =
     (if pos > length s then None else map_option (\<lambda>i. pos + i) (find_first (drop pos s) c))"

definition substr :: "string \<Rightarrow> nat \<Rightarrow> nat \<Rightarrow> string" where
  "substr s pos n = take n (drop pos s)"

definition substr_to_end :: "string \<Rightarrow> nat \<Rightarrow> string" where
  "substr_to_end s pos = drop pos s"

definition erase :: "string \<Rightarrow> nat \<Rightarrow> string" where
  "erase s pos = take pos s"

text \<open>
  The classes that \<open>Observable::make\<close> works with are not under src/ (eos/utils/options.hh,
  eos/utils/concrete_observable.hh), so they are parameters of the model: the empty
  \<open>Options\<close>, \<open>Options::set\<close> and \<open>operator+\<close> on \<open>Options\<close>; the static registry
  \<open>simple_observables\<close>, a map from names to factories; and \<open>ObservableFactory::make\<close>. An
  \<open>ObservablePtr\<close> is an option, the null pointer is \<open>None\<close>. The exception
  \<open>ObservableNameError\<close> carries the name, from which its constructor builds the message.
\<close>

record 'o Options_class =
  Options_empty :: 'o
  Options_set :: "'o \<Rightarrow> string \<Rightarrow> string \<Rightarrow> 'o"
  Options_plus :: "'o \<Rightarrow> 'o \<Rightarrow> 'o"

lemma rfind_less_length: "rfind s c = Some pos \<Longrightarrow> pos < length s"
  by (induction s arbitrary: pos) (auto split: option.splits if_splits)

text \<open>The loop of \<open>Observable::make\<close>: while the name has a comma, the text after the last
  comma is split at its first \<open>=\<close> into a key and a value, which are set in the options, and
  the name is cut at the comma.\<close>

function strip_options ::
  "'o Options_class \<Rightarrow> string \<Rightarrow> string \<Rightarrow> 'o \<Rightarrow> error + string \<times> 'o" where
  "strip_options Opt arg_name name options =
     (case rfind name CHR '','' of
        None \<Rightarrow> Inr (name, options)
      | Some pos \<Rightarrow>
          (case find_from name CHR ''='' (pos + 1) of
             None \<Rightarrow> Inl (ObservableNameError arg_name)
           | Some sep \<Rightarrow>
               (let key = substr name (pos + 1) (sep - pos - 1);
                    value = substr_to_end name (sep + 1)
                in strip_options Opt arg_name (erase name pos) (Options_set Opt options key value))))"
  by pat_completeness auto
termination
  by (relation "measure (\<lambda>(Opt, arg_name, name, options). length name)")
    (auto simp: erase_def dest: rfind_less_length)

declare strip_options.simps [simp del]

definition Observable_make ::
  "'o Options_class \<Rightarrow> (string \<rightharpoonup> 'f) \<Rightarrow> ('f \<Rightarrow> 'par \<Rightarrow> 'kin \<Rightarrow> 'o \<Rightarrow> 'obs option)
     \<Rightarrow> string \<Rightarrow> 'par \<Rightarrow> 'kin \<Rightarrow> 'o \<Rightarrow> error + 'obs option" where
  "Observable_make Opt simple_observables factory_make arg_name parameters kinematics arg_options =
     (case strip_options Opt arg_name arg_name (Options_empty Opt) of
        Inl e \<Rightarrow> Inl e
      | Inr (name, options) \<Rightarrow>
          (case simple_observables name of
             None \<Rightarrow> Inr None
           | Some factory \<Rightarrow>
               Inr (factory_make factory parameters kinematics (Options_plus Opt options arg_options))))"

text \<open>
  The contract of the factory in the words of the spec, to compare \<open>Observable_make\<close> with.
  The name is split at its commas; the first part is the name to look up, every other part
  is a clause. A clause without \<open>=\<close> makes the name malformed. Otherwise the clauses are
  recorded from right to left, each as the key before its first \<open>=\<close> and the value after
  it, and the first part is looked up in the registry, where a name that is not found gives
  the null result.
\<close>

fun split_commas :: "string \<Rightarrow> string list" where
  "split_commas [] = [[]]"
| "split_commas (c # cs) =
     (if c = CHR '','' then [] # split_commas cs
      else (case split_commas cs of
              [] \<Rightarrow> [[c]]
            | part # parts \<Rightarrow> (c # part) # parts))"

definition clause_key :: "string \<Rightarrow> string" where
  "clause_key clause = takeWhile (\<lambda>c. c \<noteq> CHR ''='') clause"

definition clause_value :: "string \<Rightarrow> string" where
  "clause_value clause = drop 1 (dropWhile (\<lambda>c. c \<noteq> CHR ''='') clause)"

definition Observable_make_spec ::
  "'o Options_class \<Rightarrow> (string \<rightharpoonup> 'f) \<Rightarrow> ('f \<Rightarrow> 'par \<Rightarrow> 'kin \<Rightarrow> 'o \<Rightarrow> 'obs option)
     \<Rightarrow> string \<Rightarrow> 'par \<Rightarrow> 'kin \<Rightarrow> 'o \<Rightarrow> error + 'obs option" where
  "Observable_make_spec Opt simple_observables factory_make arg_name parameters kinematics arg_options =
     (let stripped = hd (split_commas arg_name);
          clauses = tl (split_commas arg_name)
      in if list_ex (\<lambda>clause. CHR ''='' \<notin> set clause) clauses
           then Inl (ObservableNameError arg_name)
         else
           (let options = foldr (\<lambda>clause options. Options_set Opt options (clause_key clause) (clause_value clause))
                            clauses (Options_empty Opt)
            in case simple_observables stripped of
                 None \<Rightarrow> Inr None
               | Some factory \<Rightarrow>
                   Inr (factory_make factory parameters kinematics (Options_plus Opt options arg_options))))"

section \<open>Sampling\<close>

text \<open>
  The random number generator of the library, a parameter of the model: \<open>'r\<close> is the state
  of the generator, every draw returns the number drawn and the next state. The field
  \<open>gsl_rng_set\<close> stands for \<open>gsl_rng_alloc(gsl_rng_mt19937)\<close> followed by \<open>gsl_rng_set\<close> with
  the given seed.
\<close>

record 'r gsl_rng =
  gsl_rng_set :: "unsigned \<Rightarrow> 'r"
  gsl_rng_uniform :: "'r \<Rightarrow> real \<times> 'r"
  gsl_ran_gamma :: "'r \<Rightarrow> real \<Rightarrow> real \<Rightarrow> real \<times> 'r"
  gsl_ran_ugaussian :: "'r \<Rightarrow> real \<times> 'r"

definition GaussianBlock_sample ::
  "gsl \<Rightarrow> 'r gsl_rng \<Rightarrow> 'p ObservableCache \<Rightarrow> GaussianBlock \<Rightarrow> 'r \<Rightarrow> real \<times> 'r" where
  "GaussianBlock_sample G R cache blk rng =
     (let (u, rng') = gsl_rng_uniform R rng;
          c_b = G_c_upper blk;
          a = G_sigma_lower blk;
          b = G_sigma_upper blk;
          theory = ObservableCache_index cache (G_id blk);
          (obs, sigma) =
            (if u < b / (a + b)
             then (gsl_cdf_gaussian_Pinv G (u / c_b) b + theory, b)
             else (gsl_cdf_gaussian_Pinv G (u - (1 / 2) * c_b) a + theory, a));
          chi = (theory - obs) / sigma
      in (G_norm blk - power_of_2 chi / 2, rng'))"

text \<open>The loop \<open>while (true)\<close> of \<open>LogGammaBlock::sample\<close> draws until a draw falls inside
  the range; nothing bounds the number of draws.\<close>

partial_function (option) LogGammaBlock_draw ::
  "'r gsl_rng \<Rightarrow> LogGammaBlock \<Rightarrow> real \<Rightarrow> real \<Rightarrow> 'r \<Rightarrow> (real \<times> 'r) option" where
  "LogGammaBlock_draw R b range_min range_max rng =
     (case gsl_ran_gamma R rng (L_alpha b) 1 of
        (g, rng') \<Rightarrow>
          (if range_min < L_lambda b * ln g + L_nu b \<and> L_lambda b * ln g + L_nu b < range_max
           then Some (L_lambda b * ln g + L_nu b, rng')
           else LogGammaBlock_draw R b range_min range_max rng'))"

definition LogGammaBlock_sample :: "'r gsl_rng \<Rightarrow> LogGammaBlock \<Rightarrow> 'r \<Rightarrow> (real \<times> 'r) option" where
  "LogGammaBlock_sample R b rng =
     (let range_min = L_central b - 3 * L_sigma_lower b;
          range_max = L_central b + 3 * L_sigma_upper b
      in case LogGammaBlock_draw R b range_min range_max rng of
           None \<Rightarrow> None
         | Some (x, rng') \<Rightarrow>
             (let nu_pseudo = x - L_lambda b * ln (L_alpha b);
                  value = (L_central b - nu_pseudo) / L_lambda b
              in Some (L_norm b + L_alpha b * value - exp value, rng')))"

definition AmorosoBlock_sample :: "'r gsl_rng \<Rightarrow> AmorosoBlock \<Rightarrow> 'r \<Rightarrow> real \<times> 'r" where
  "AmorosoBlock_sample R a rng =
     (let (w, rng') = gsl_ran_gamma R rng (A_alpha a) 1;
          z = w powr (1 / A_beta a)
      in (A_norm a + (A_alpha a * A_beta a - 1) * ln z - w, rng'))"

fun draw_ugaussians :: "'r gsl_rng \<Rightarrow> nat \<Rightarrow> 'r \<Rightarrow> real list \<times> 'r" where
  "draw_ugaussians R 0 rng = ([], rng)"
| "draw_ugaussians R (Suc k) rng =
     (let (x, rng') = gsl_ran_ugaussian R rng;
          (xs, rng'') = draw_ugaussians R k rng'
      in (x # xs, rng''))"

definition MultivariateGaussianBlock_sample ::
  "'r gsl_rng \<Rightarrow> MultivariateGaussianBlock \<Rightarrow> 'r \<Rightarrow> real \<times> 'r" where
  "MultivariateGaussianBlock_sample R b rng =
     (let k = length (M_mean b);
          (observables, rng') = draw_ugaussians R k rng;
          observables_2 = gsl_blas_dgemv (M_chol b) observables;
          observables = gsl_blas_dgemv (M_covariance_inv b) observables_2;
          result = gsl_blas_ddot observables observables_2
      in (result * (- (1 / 2)) + M_norm b, rng'))"

text \<open>\<open>sample()\<close> of a block: the outer option is \<open>None\<close> when the call does not return.\<close>

fun sample ::
  "gsl \<Rightarrow> 'r gsl_rng \<Rightarrow> 'p ObservableCache \<Rightarrow> LogLikelihoodBlock \<Rightarrow> 'r \<Rightarrow> (error + real \<times> 'r) option" where
  "sample G R cache (Block_Gaussian b) rng = Some (Inr (GaussianBlock_sample G R cache b rng))"
| "sample G R cache (Block_LogGamma b) rng = map_option Inr (LogGammaBlock_sample R b rng)"
| "sample G R cache (Block_Amoroso b) rng = Some (Inr (AmorosoBlock_sample R b rng))"
| "sample G R cache (MixtureBlock components weights) rng =
     Some (Inl (InternalError ''LogLikelihoodBlock::MixtureBlock::sample() not implemented yet''))"
| "sample G R cache (Block_MultivariateGaussian b) rng = Some (Inr (MultivariateGaussianBlock_sample R b rng))"

section \<open>The likelihood and its bootstrap\<close>

text \<open>
  Modelled from the spec: \<open>Constraint\<close> (eos/constraint.hh is not under src/), the named
  bundle of observables and blocks; \<open>bootstrap_p_value\<close> reads its blocks.
  \<open>Implementation<LogLikelihood>\<close> holds the parameters, the cache and the constraints; the
  functions below take the cache and the constraints as arguments.
\<close>

record 'p Constraint =
  constraint_name :: string
  constraint_observables :: "'p Observable list"
  constraint_blocks :: "LogLikelihoodBlock list"

text \<open>The first pair of loops of \<open>bootstrap_p_value\<close>: \<open>t_obs\<close> is increased by
  \<open>evaluate()\<close> of every block, those with no observation left out.\<close>

fun observed_blocks :: "'p ObservableCache \<Rightarrow> LogLikelihoodBlock list \<Rightarrow> real \<Rightarrow> real option" where
  "observed_blocks cache [] t_obs = Some t_obs"
| "observed_blocks cache (b # bs) t_obs =
     (if number_of_observations b = 0 then observed_blocks cache bs t_obs
      else (case evaluate cache b of
              None \<Rightarrow> None
            | Some v \<Rightarrow> observed_blocks cache bs (t_obs + v)))"

fun observed_constraints :: "'p ObservableCache \<Rightarrow> 'p Constraint list \<Rightarrow> real \<Rightarrow> real option" where
  "observed_constraints cache [] t_obs = Some t_obs"
| "observed_constraints cache (c # cs) t_obs =
     (case observed_blocks cache (constraint_blocks c) t_obs of
        None \<Rightarrow> None
      | Some t_obs' \<Rightarrow> observed_constraints cache cs t_obs')"

text \<open>The inner pair of loops of the sampling: \<open>t\<close> is increased by \<open>sample(rng)\<close> of every
  block; an exception of \<open>sample\<close> leaves the loops.\<close>

fun sample_blocks ::
  "gsl \<Rightarrow> 'r gsl_rng \<Rightarrow> 'p ObservableCache \<Rightarrow> LogLikelihoodBlock list \<Rightarrow> real \<Rightarrow> 'r
     \<Rightarrow> (error + real \<times> 'r) option" where
  "sample_blocks G R cache [] t rng = Some (Inr (t, rng))"
| "sample_blocks G R cache (b # bs) t rng =
     (case sample G R cache b rng of
        None \<Rightarrow> None
      | Some (Inl e) \<Rightarrow> Some (Inl e)
      | Some (Inr (v, rng')) \<Rightarrow> sample_blocks G R cache bs (t + v) rng')"

fun sample_constraints ::
  "gsl \<Rightarrow> 'r gsl_rng \<Rightarrow> 'p ObservableCache \<Rightarrow> 'p Constraint list \<Rightarrow> real \<Rightarrow> 'r
     \<Rightarrow> (error + real \<times> 'r) option" where
  "sample_constraints G R cache [] t rng = Some (Inr (t, rng))"
| "sample_constraints G R cache (c # cs) t rng =
     (case sample_blocks G R cache (constraint_blocks c) t rng of
        None \<Rightarrow> None
      | Some (Inl e) \<Rightarrow> Some (Inl e)
      | Some (Inr (t', rng')) \<Rightarrow> sample_constraints G R cache cs t' rng')"

lemma unsigned_increment: "i < datasets \<Longrightarrow> unat (i + 1) = Suc (unat i)" for i datasets :: unsigned
  by unat_arith

text \<open>The loop \<open>for (unsigned i = 0 ; i < datasets ; ++i)\<close>: it returns \<open>n_low\<close>.\<close>

function collect_samples ::
  "gsl \<Rightarrow> 'r gsl_rng \<Rightarrow> 'p ObservableCache \<Rightarrow> 'p Constraint list \<Rightarrow> real \<Rightarrow> unsigned \<Rightarrow> unsigned
     \<Rightarrow> unsigned \<Rightarrow> 'r \<Rightarrow> (error + unsigned) option" where
  "collect_samples G R cache constraints t_obs datasets i n_low rng =
     (if i < datasets then
        (case sample_constraints G R cache constraints 0 rng of
           None \<Rightarrow> None
         | Some (Inl e) \<Rightarrow> Some (Inl e)
         | Some (Inr (t, rng')) \<Rightarrow>
             collect_samples G R cache constraints t_obs datasets (i + 1)
               (if t < t_obs then n_low + 1 else n_low) rng')
      else Some (Inr n_low))"
  by pat_completeness auto
termination
  by (relation "measure (\<lambda>(G, R, cache, constraints, t_obs, datasets, i, n_low, rng). unat datasets - unat i)")
    (auto simp: unsigned_increment word_less_nat_alt)

declare collect_samples.simps [simp del]

text \<open>
  The conversion of an \<open>unsigned\<close> to \<open>double\<close>, which is exact. The three quotients at the
  end of \<open>bootstrap_p_value\<close> are quotients of doubles: the divisor is zero when \<open>datasets\<close>
  is zero, and when \<open>datasets + 2\<close> or \<open>datasets + 3\<close> wraps around to zero.
\<close>

definition double :: "unsigned \<Rightarrow> real" where
  "double n = real (unat n)"

definition bootstrap_p_value ::
  "gsl \<Rightarrow> 'r gsl_rng \<Rightarrow> 'p ObservableCache \<Rightarrow> 'p Constraint list \<Rightarrow> unsigned
     \<Rightarrow> (error + double \<times> double) option" where
  "bootstrap_p_value G R cache constraints datasets =
     (case observed_constraints cache constraints 0 of
        None \<Rightarrow> None
      | Some t_obs \<Rightarrow>
          (case collect_samples G R cache constraints t_obs datasets 0 0 (gsl_rng_set R datasets) of
             None \<Rightarrow> None
           | Some (Inl e) \<Rightarrow> Some (Inl e)
           | Some (Inr n_low) \<Rightarrow>
               (let p = double_div (Finite (double n_low)) (Finite (double datasets));
                    p_expected = double_div (Finite (double (n_low + 1))) (Finite (double (datasets + 2)));
                    uncertainty =
                      double_sqrt
                        (double_div (double_mul p_expected (double_sub (Finite 1) p_expected))
                           (Finite (double (datasets + 3))))
                in Some (Inr (p, uncertainty)))))"

text \<open>
  For the statement about the bootstrap: the toy totals that \<open>n\<close> rounds of sampling draw
  one after the other from a state of the generator, when every \<open>sample()\<close> returns a
  number.
\<close>

fun toy_totals ::
  "gsl \<Rightarrow> 'r gsl_rng \<Rightarrow> 'p ObservableCache \<Rightarrow> 'p Constraint list \<Rightarrow> nat \<Rightarrow> 'r \<Rightarrow> real list option" where
  "toy_totals G R cache constraints 0 rng = Some []"
| "toy_totals G R cache constraints (Suc n) rng =
     (case sample_constraints G R cache constraints 0 rng of
        Some (Inr (t, rng')) \<Rightarrow> map_option ((#) t) (toy_totals G R cache constraints n rng')
      | _ \<Rightarrow> None)"

section \<open>Cloning\<close>

text \<open>
  \<open>clone(cache)\<close> of every block. The blocks of one likelihood share one cache: the first
  argument is the state of the cache of the block that is cloned (\<open>this->cache\<close>), the last
  one the state of the cache that the clone is bound to; the result holds the new state of
  that cache, also when a constructor throws after the observable has been added.
\<close>

definition GaussianBlock_clone ::
  "'p ObservableCache \<Rightarrow> GaussianBlock \<Rightarrow> 'p ObservableCache \<Rightarrow> GaussianBlock \<times> 'p ObservableCache" where
  "GaussianBlock_clone this_cache b cache =
     (let observable = Observable_clone (ObservableCache_observable this_cache (G_id b)) (cache_parameters cache);
          (index, cache') = ObservableCache_add cache observable
      in (GaussianBlock_ctor index (G_mode b - G_sigma_lower b) (G_mode b) (G_mode b + G_sigma_upper b)
            (G_number_of_observations b),
          cache'))"

definition LogGammaBlock_clone ::
  "gsl \<Rightarrow> 'p ObservableCache \<Rightarrow> LogGammaBlock \<Rightarrow> 'p ObservableCache
     \<Rightarrow> (error + LogGammaBlock) \<times> 'p ObservableCache" where
  "LogGammaBlock_clone G this_cache b cache =
     (let observable = Observable_clone (ObservableCache_observable this_cache (L_id b)) (cache_parameters cache);
          (index, cache') = ObservableCache_add cache observable
      in (LogGammaBlock_ctor_explicit G index (L_central b - L_sigma_lower b) (L_central b)
            (L_central b + L_sigma_upper b) (L_lambda b) (L_alpha b) (L_number_of_observations b),
          cache'))"

definition AmorosoBlock_clone ::
  "gsl \<Rightarrow> 'p ObservableCache \<Rightarrow> AmorosoBlock \<Rightarrow> 'p ObservableCache
     \<Rightarrow> (error + AmorosoBlock) \<times> 'p ObservableCache" where
  "AmorosoBlock_clone G this_cache b cache =
     (let observable = Observable_clone (ObservableCache_observable this_cache (A_id b)) (cache_parameters cache);
          (index, cache') = ObservableCache_add cache observable
      in (AmorosoBlock_ctor G index (A_physical_limit b) (A_theta b) (A_alpha b) (A_beta b)
            (A_number_of_observations b),
          cache'))"

definition MultivariateGaussianBlock_clone ::
  "gsl \<Rightarrow> 'p ObservableCache \<Rightarrow> MultivariateGaussianBlock \<Rightarrow> 'p ObservableCache
     \<Rightarrow> (error + MultivariateGaussianBlock) \<times> 'p ObservableCache" where
  "MultivariateGaussianBlock_clone G this_cache b cache =
     (let k = length (M_mean b);
          (ids, cache') =
            register_observables cache
              (map (\<lambda>i. Observable_clone (ObservableCache_observable this_cache (M_ids b ! i))
                            (cache_parameters cache))
                 [0 ..< k])
      in (MultivariateGaussianBlock_ctor G ids (M_mean b) (M_covariance b) (M_number_of_observations b),
          cache'))"

text \<open>\<open>clone\<close> of a block, and the loop of \<open>MixtureBlock::clone\<close> over the components, which
  an exception of a component's \<open>clone\<close> leaves.\<close>

fun clone ::
    "gsl \<Rightarrow> 'p ObservableCache \<Rightarrow> LogLikelihoodBlock \<Rightarrow> 'p ObservableCache
       \<Rightarrow> (error + LogLikelihoodBlock) \<times> 'p ObservableCache"
  and clone_components ::
    "gsl \<Rightarrow> 'p ObservableCache \<Rightarrow> LogLikelihoodBlock list \<Rightarrow> 'p ObservableCache
       \<Rightarrow> (error + LogLikelihoodBlock list) \<times> 'p ObservableCache" where
  "clone G this_cache (Block_Gaussian b) cache =
     (case GaussianBlock_clone this_cache b cache of (b', cache') \<Rightarrow> (Inr (Block_Gaussian b'), cache'))"
| "clone G this_cache (Block_LogGamma b) cache =
     (case LogGammaBlock_clone G this_cache b cache of
        (Inl e, cache') \<Rightarrow> (Inl e, cache')
      | (Inr b', cache') \<Rightarrow> (Inr (Block_LogGamma b'), cache'))"
| "clone G this_cache (Block_Amoroso b) cache =
     (case AmorosoBlock_clone G this_cache b cache of
        (Inl e, cache') \<Rightarrow> (Inl e, cache')
      | (Inr b', cache') \<Rightarrow> (Inr (Block_Amoroso b'), cache'))"
| "clone G this_cache (MixtureBlock components weights) cache =
     (case clone_components G this_cache components cache of
        (Inl e, cache') \<Rightarrow> (Inl e, cache')
      | (Inr clones, cache') \<Rightarrow> (Inr (MixtureBlock clones weights), cache'))"
| "clone G this_cache (Block_MultivariateGaussian b) cache =
     (case MultivariateGaussianBlock_clone G this_cache b cache of
        (Inl e, cache') \<Rightarrow> (Inl e, cache')
      | (Inr b', cache') \<Rightarrow> (Inr (Block_MultivariateGaussian b'), cache'))"
| "clone_components G this_cache [] cache = (Inr [], cache)"
| "clone_components G this_cache (c # cs) cache =
     (case clone G this_cache c cache of
        (Inl e, cache') \<Rightarrow> (Inl e, cache')
      | (Inr c', cache') \<Rightarrow>
          (case clone_components G this_cache cs cache' of
             (Inl e, cache'') \<Rightarrow> (Inl e, cache'')
           | (Inr cs', cache'') \<Rightarrow> (Inr (c' # cs'), cache'')))"

text \<open>
  For the statement about clones. A block is \<open>constructed\<close> on a cache when its fields are
  those that its constructor derives from its arguments, and its ids are ids of the cache.
  A LogGamma block is \<open>calibrated\<close> when its shape parameters pass the two checks of the
  second constructor; the first constructor does not make these checks.
\<close>

definition LogGammaBlock_calibrated :: "gsl \<Rightarrow> LogGammaBlock \<Rightarrow> bool" where
  "LogGammaBlock_calibrated G b \<longleftrightarrow>
     \<bar>LogGammaBlock_cdf G b (L_central b + L_sigma_upper b)
        - LogGammaBlock_cdf G b (L_central b - L_sigma_lower b) - one_sigma_coverage\<bar> \<le> 1 / 10 ^ 4
     \<and> \<bar>L_alpha b * ((L_central b + L_sigma_upper b - L_nu b) / L_lambda b)
          - exp ((L_central b + L_sigma_upper b - L_nu b) / L_lambda b)
          - L_alpha b * ((L_central b - L_sigma_lower b - L_nu b) / L_lambda b)
          + exp ((L_central b - L_sigma_lower b - L_nu b) / L_lambda b)\<bar> \<le> 1 / 10 ^ 4"

fun calibrated :: "gsl \<Rightarrow> LogLikelihoodBlock \<Rightarrow> bool" where
  "calibrated G (Block_LogGamma b) = LogGammaBlock_calibrated G b"
| "calibrated G (MixtureBlock components weights) = list_all (calibrated G) components"
| "calibrated G b = True"

fun constructed :: "gsl \<Rightarrow> 'p ObservableCache \<Rightarrow> LogLikelihoodBlock \<Rightarrow> bool" where
  "constructed G cache (Block_Gaussian b) \<longleftrightarrow>
     G_id b < length (cache_observables cache)
     \<and> b = GaussianBlock_ctor (G_id b) (G_mode b - G_sigma_lower b) (G_mode b) (G_mode b + G_sigma_upper b)
             (G_number_of_observations b)"
| "constructed G cache (Block_LogGamma b) \<longleftrightarrow>
     L_id b < length (cache_observables cache)
     \<and> L_nu b = L_central b - L_lambda b * ln (L_alpha b)
     \<and> L_norm b = - 1 * gsl_sf_lngamma G (L_alpha b) - ln \<bar>L_lambda b\<bar>"
| "constructed G cache (Block_Amoroso b) \<longleftrightarrow>
     A_id b < length (cache_observables cache)
     \<and> AmorosoBlock_ctor G (A_id b) (A_physical_limit b) (A_theta b) (A_alpha b) (A_beta b)
          (A_number_of_observations b) = Inr b"
| "constructed G cache (MixtureBlock components weights) \<longleftrightarrow>
     list_all (constructed G cache) components"
| "constructed G cache (Block_MultivariateGaussian b) \<longleftrightarrow>
     list_all (\<lambda>i. i < length (cache_observables cache)) (M_ids b)
     \<and> MultivariateGaussianBlock_ctor G (M_ids b) (M_mean b) (M_covariance b)
          (M_number_of_observations b) = Inr b"

definition cache_extends :: "'p ObservableCache \<Rightarrow> 'p ObservableCache \<Rightarrow> bool" where
  "cache_extends cache cache' \<longleftrightarrow>
     cache_parameters cache' = cache_parameters cache
     \<and> take (length (cache_observables cache)) (cache_observables cache') = cache_observables cache"

section \<open>Properties of the Gaussian block\<close>

lemma GaussianBlock_evaluate_at_mode:
  "ObservableCache_index cache (G_id b) = G_mode b \<Longrightarrow> GaussianBlock_evaluate cache b = G_norm b"
  by (simp add: GaussianBlock_evaluate_def power_of_2_def)

text \<open>
  Claim C4. A Gaussian block is constructed whenever \<open>min < central < max\<close>; its mode is the
  central value and its two widths are the distances to \<open>min\<close> and \<open>max\<close>, both positive.
  For every state of the cache, \<open>evaluate()\<close> returns \<open>norm - chi\<^sup>2 / 2\<close> with
  \<open>chi = (value - mode) / sigma\<close>, where \<open>sigma\<close> is \<open>sigma_upper\<close> when the cached value
  exceeds the mode and \<open>sigma_lower\<close> otherwise; when the cached value is the mode,
  \<open>evaluate()\<close> returns \<open>norm\<close>.
\<close>

theorem GaussianBlock_evaluate_chi_square:
  assumes "minimum < central" and "central < maximum"
  shows "\<exists>b cache'.
           LogLikelihoodBlock_Gaussian cache observable minimum central maximum n = (Inr b, cache')
         \<and> G_mode b = central
         \<and> G_sigma_lower b = central - minimum \<and> 0 < G_sigma_lower b
         \<and> G_sigma_upper b = maximum - central \<and> 0 < G_sigma_upper b
         \<and> G_norm b = ln (sqrt (2 / pi) / (G_sigma_upper b + G_sigma_lower b))
         \<and> (\<forall>c :: 'q ObservableCache.
              GaussianBlock_evaluate c b =
                G_norm b -
                  ((ObservableCache_index c (G_id b) - G_mode b) /
                     (if ObservableCache_index c (G_id b) > G_mode b
                      then G_sigma_upper b else G_sigma_lower b))\<^sup>2 / 2)
         \<and> (\<forall>c :: 'q ObservableCache.
              ObservableCache_index c (G_id b) = G_mode b \<longrightarrow> GaussianBlock_evaluate c b = G_norm b)"
proof -
  obtain index cache' where add: "ObservableCache_add cache observable = (index, cache')"
    by (cases "ObservableCache_add cache observable")
  let ?b = "GaussianBlock_ctor index minimum central maximum n"
  have made: "LogLikelihoodBlock_Gaussian cache observable minimum central maximum n = (Inr ?b, cache')"
    using assms by (simp add: LogLikelihoodBlock_Gaussian_def add)
  have fields: "G_mode ?b = central" "G_sigma_lower ?b = central - minimum"
    "G_sigma_upper ?b = maximum - central"
    "G_norm ?b = ln (sqrt (2 / pi) / (G_sigma_upper ?b + G_sigma_lower ?b))"
    by (simp_all add: GaussianBlock_ctor_def Let_def)
  have ev: "GaussianBlock_evaluate c ?b =
      G_norm ?b -
        ((ObservableCache_index c (G_id ?b) - G_mode ?b) /
           (if ObservableCache_index c (G_id ?b) > G_mode ?b
            then G_sigma_upper ?b else G_sigma_lower ?b))\<^sup>2 / 2" for c :: "'q ObservableCache"
    by (simp add: GaussianBlock_evaluate_def power_of_2_def Let_def power2_eq_square)
  have at_mode: "ObservableCache_index c (G_id ?b) = G_mode ?b \<longrightarrow> GaussianBlock_evaluate c ?b = G_norm ?b"
    for c :: "'q ObservableCache"
    by (simp add: GaussianBlock_evaluate_at_mode)
  show ?thesis
    using made fields ev at_mode assms by (intro exI [of _ ?b] exI [of _ cache']) simp
qed

theorem GaussianBlock_evaluate_chi_square_witness:
  "LogLikelihoodBlock_Gaussian
      \<lparr>cache_parameters = (), cache_observables = [], cache_predictions = (\<lambda>i. 1)\<rparr>
      (\<lambda>p. 1) (9 / 10) 1 (6 / 5) 1
    = (Inr (GaussianBlock_ctor 0 (9 / 10) 1 (6 / 5) 1),
           \<lparr>cache_parameters = (), cache_observables = [\<lambda>p. 1], cache_predictions = (\<lambda>i. 1)\<rparr>)
   \<and> GaussianBlock_evaluate
        \<lparr>cache_parameters = (), cache_observables = [\<lambda>p. 1], cache_predictions = (\<lambda>i. 1)\<rparr>
        (GaussianBlock_ctor 0 (9 / 10) 1 (6 / 5) 1)
      = ln (sqrt (2 / pi) / (3 / 10))"
proof -
  have h1: "(9 / 10 :: real) < 1" and h2: "(1 :: real) < 6 / 5"
    by simp_all
  from GaussianBlock_evaluate_chi_square [OF h1 h2,
      of "\<lparr>cache_parameters = (), cache_observables = [], cache_predictions = (\<lambda>i. 1)\<rparr>" "\<lambda>p. 1" 1]
  show ?thesis
    by (simp add: LogLikelihoodBlock_Gaussian_def ObservableCache_add_def GaussianBlock_ctor_def
        GaussianBlock_evaluate_def ObservableCache_index_def power_of_2_def Let_def)
qed

section \<open>Properties of the Amoroso and LogGamma blocks\<close>

lemma double_sub_Finite [simp]: "double_sub (Finite x) (Finite y) = Finite (x - y)"
  by (simp add: double_sub_def)

lemma std_pow_nonneg_base: "0 \<le> x \<Longrightarrow> 0 < y \<Longrightarrow> std_pow x y = Finite (x powr y)"
  by (simp add: std_pow_def)



lemma AmorosoBlock_cdf_positive_scale:
  assumes "0 < A_theta a" and "0 < A_alpha a" and "0 < A_beta a" and "A_physical_limit a \<le> x"
  shows "AmorosoBlock_cdf G a x =
           Inr (Finite (1 - gsl_sf_gamma_inc_Q G (A_alpha a)
                              (((x - A_physical_limit a) / A_theta a) powr A_beta a)))"
proof -
  have "0 < A_beta a / A_theta a"
    using assms by simp
  then have branch: "\<not> A_beta a / A_theta a < 0"
    by simp
  have "0 \<le> (x - A_physical_limit a) / A_theta a"
    using assms by simp
  then have w: "std_pow ((x - A_physical_limit a) / A_theta a) (A_beta a)
      = Finite (((x - A_physical_limit a) / A_theta a) powr A_beta a)"
    using assms(3) by (rule std_pow_nonneg_base)
  have "\<not> ((x - A_physical_limit a) / A_theta a) powr A_beta a < 0"
    by (simp add: not_less)
  then show ?thesis
    using branch assms(2) by (simp add: AmorosoBlock_cdf_def w gsl_sf_gamma_inc_Q_at_def Let_def)
qed




















lemma exp_minus_bound: "0 \<le> x \<Longrightarrow> exp (- x) \<le> 1 / (1 + x)" for x :: real
proof -
  assume "0 \<le> x"
  then have "0 < 1 + x" and "1 + x \<le> exp x"
    by (simp_all add: exp_ge_add_one_self)
  then have "1 / exp x \<le> 1 / (1 + x)"
    by (intro divide_left_mono) simp_all
  then show ?thesis
    by (simp add: exp_minus inverse_eq_divide)
qed

lemma gumbel_mass_bound: "exp (- exp (- 20)) - exp (- exp 10) > (86 / 100 :: real)"
proof -
  have "exp (- 20) \<le> (1 / 21 :: real)"
    using exp_minus_bound [of 20] by simp
  moreover have "1 + (- exp (- 20)) \<le> exp (- exp (- 20 :: real))"
    by (rule exp_ge_add_one_self)
  ultimately have lower: "(20 / 21 :: real) \<le> exp (- exp (- 20))"
    by simp
  have "(11 :: real) \<le> exp 10"
    using exp_ge_add_one_self [of "10 :: real"] by simp
  then have "exp (- exp 10) \<le> exp (- 11 :: real)"
    by simp
  also have "\<dots> \<le> 1 / 12"
    using exp_minus_bound [of 11] by simp
  finally have upper: "exp (- exp 10) \<le> (1 / 12 :: real)" .
  from lower upper show ?thesis
    by simp
qed



text \<open>
  The factory \<open>AmorosoMode\<close> returns a block whose mode is NaN: with \<open>alpha = 1\<close> and
  \<open>beta = 2 / 5\<close> the mode is \<open>std::pow(- 3 / 2, 5 / 2)\<close>, and the check against the mode
  supplied is passed, whatever mode was supplied; the two limits are the 90% and 95%
  quantiles of the distribution.
\<close>

lemma AmorosoMode_accepts_undefined_mode:
  "fst (LogLikelihoodBlock_AmorosoMode gsl_at_shape_one
          \<lparr>cache_parameters = (), cache_observables = [], cache_predictions = (\<lambda>i. 0)\<rparr>
          (\<lambda>p. 0) 0 (1 / 2) (ln 10 powr (5 / 2)) (ln 20 powr (5 / 2)) 1 1 (2 / 5) 1)
     = Inr \<lparr>A_id = 0, A_physical_limit = 0, A_theta = 1, A_alpha = 1, A_beta = 2 / 5,
            A_norm = ln (2 / 5), A_number_of_observations = 1\<rparr>
   \<and> AmorosoBlock_mode
        \<lparr>A_id = 0, A_physical_limit = 0, A_theta = 1, A_alpha = 1, A_beta = 2 / 5,
         A_norm = ln (2 / 5), A_number_of_observations = 1\<rparr> = NaN"
proof -
  let ?a = "\<lparr>A_id = 0, A_physical_limit = 0, A_theta = 1, A_alpha = 1, A_beta = 2 / 5,
            A_norm = ln (2 / 5), A_number_of_observations = 1\<rparr>"
  have mode: "AmorosoBlock_mode ?a = NaN"
    by (simp add: AmorosoBlock_mode_def std_pow_def)
  have inverted: "(ln y powr (5 / 2)) powr (2 / 5) = ln y" if "1 < y" for y :: real
    using that by (simp add: powr_powr)
  have cdf: "AmorosoBlock_cdf gsl_at_shape_one ?a (ln y powr (5 / 2)) = Inr (Finite (1 - 1 / y))"
    if "1 < y" for y
    using AmorosoBlock_cdf_positive_scale [of ?a "ln y powr (5 / 2)" gsl_at_shape_one] that
    by (simp add: gsl_at_shape_one_def inverted exp_minus inverse_eq_divide)
  have order: "ln 10 powr (5 / 2) < (ln 20 powr (5 / 2) :: real)"
    and above: "0 < (ln 10 powr (5 / 2) :: real)"
    by (simp_all add: powr_less_mono2)
  have ctor: "AmorosoBlock_ctor gsl_at_shape_one 0 0 1 1 (2 / 5) 1 = Inr ?a"
    by (simp add: AmorosoBlock_ctor_def gsl_at_shape_one_def)
  show ?thesis
    using order above
    by (simp add: LogLikelihoodBlock_AmorosoMode_def ObservableCache_add_def ctor mode cdf double_sub_def)
qed

section \<open>Properties of the mixture block\<close>

lemma foldl_plus_sum_list:
  "foldl (\<lambda>acc x. acc + f x) a xs = a + sum_list (map f xs)" for a :: real
  by (induction xs arbitrary: a) (simp_all add: add.assoc)

lemma max_element_nonempty: "xs \<noteq> [] \<Longrightarrow> \<exists>m. max_element xs = Some m"
  by (cases xs) simp_all

lemma weighted_exp_sum_nonneg:
  fixes ws ls :: "real list"
  assumes "length ws = length ls" and "\<forall>w \<in> set ws. 0 \<le> w"
  shows "0 \<le> (\<Sum>(w, l) \<leftarrow> zip ws ls. w * exp l)
       \<and> ((\<Sum>(w, l) \<leftarrow> zip ws ls. w * exp l) = 0 \<longrightarrow> sum_list ws = 0)"
  using assms
proof (induction ws ls rule: list_induct2)
  case Nil
  then show ?case by simp
next
  case (Cons w ws l ls)
  then have ih: "0 \<le> (\<Sum>(w, l) \<leftarrow> zip ws ls. w * exp l)"
      "(\<Sum>(w, l) \<leftarrow> zip ws ls. w * exp l) = 0 \<longrightarrow> sum_list ws = 0"
    by simp_all
  have w: "0 \<le> w" using Cons.prems by simp
  then have t: "0 \<le> w * exp l" by simp
  have "w * exp l + (\<Sum>(w, l) \<leftarrow> zip ws ls. w * exp l) = 0 \<longrightarrow> w + sum_list ws = 0"
  proof
    assume "w * exp l + (\<Sum>(w, l) \<leftarrow> zip ws ls. w * exp l) = 0"
    with t ih(1) have "w * exp l = 0" and "(\<Sum>(w, l) \<leftarrow> zip ws ls. w * exp l) = 0"
      by linarith+
    then show "w + sum_list ws = 0"
      using ih(2) by simp
  qed
  then show ?case
    using t ih(1) by simp
qed

lemma weighted_exp_sum_shift:
  fixes ws ls :: "real list" and m :: real
  shows "(\<Sum>(w, l) \<leftarrow> zip ws ls. w * exp (l - m)) = exp (- m) * (\<Sum>(w, l) \<leftarrow> zip ws ls. w * exp l)"
proof -
  have "(\<Sum>(w, l) \<leftarrow> zip ws ls. w * exp (l - m)) = (\<Sum>(w, l) \<leftarrow> zip ws ls. exp (- m) * (w * exp l))"
    by (rule arg_cong [where f = sum_list], rule map_cong) (auto simp: exp_diff exp_minus field_simps)
  also have "\<dots> = exp (- m) * (\<Sum>(w, l) \<leftarrow> zip ws ls. w * exp l)"
    by (simp add: sum_list_const_mult case_prod_unfold)
  finally show ?thesis .
qed

lemma MixtureBlock_log_sum_exp_plain:
  assumes len: "length weights = length ls" and ne: "ls \<noteq> []"
    and nonneg: "\<forall>w \<in> set weights. 0 \<le> w" and one: "sum_list weights = 1"
  shows "MixtureBlock_log_sum_exp ls weights = Some (ln (\<Sum>(w, l) \<leftarrow> zip weights ls. w * exp l))"
proof -
  let ?S = "\<Sum>(w, l) \<leftarrow> zip weights ls. w * exp l"
  obtain m where m: "max_element ls = Some m"
    using max_element_nonempty [OF ne] by blast
  have "0 \<le> ?S" and "?S = 0 \<longrightarrow> sum_list weights = 0"
    using weighted_exp_sum_nonneg [OF len nonneg] by simp_all
  with one have pos: "0 < ?S"
    by (cases "?S = 0") simp_all
  have fold: "foldl (\<lambda>ret_val (w, v). ret_val + w * exp (v - m)) 0 (zip weights ls)
      = (\<Sum>(w, l) \<leftarrow> zip weights ls. w * exp (l - m))"
    using foldl_plus_sum_list [of "\<lambda>(w, v). w * exp (v - m)" 0 "zip weights ls"]
    by (simp add: case_prod_unfold)
  have "ln (exp (- m) * ?S) + m = ln ?S"
    using pos by (simp add: ln_mult_pos)
  then show ?thesis
    using len m by (simp add: MixtureBlock_log_sum_exp_def fold weighted_exp_sum_shift)
qed

lemma max_element_Max: "ls \<noteq> [] \<Longrightarrow> max_element ls = Some (Max (set ls))"
proof (cases ls)
  case Nil
  then show "ls \<noteq> [] \<Longrightarrow> ?thesis"
    by simp
next
  case (Cons x xs)
  have "(\<lambda>v largest. if largest < v then v else largest) = (max :: real \<Rightarrow> real \<Rightarrow> real)"
    by (auto simp: fun_eq_iff max_def)
  then have "foldl (\<lambda>largest v. if largest < v then v else largest) x xs = fold max xs x"
    by (simp add: foldl_conv_fold)
  then show ?thesis
    using Max.set_eq_fold [of x xs] Cons by simp
qed

lemma foldl_double_sum:
  "\<forall>p \<in> set ps. h (snd p) = Finite (e (snd p)) \<Longrightarrow>
     foldl (\<lambda>acc (w, v). double_add acc (double_mul (Finite w) (h v))) (Finite a) ps
       = Finite (a + (\<Sum>(w, v) \<leftarrow> ps. w * e v))"
  by (induction ps arbitrary: a) (auto simp: add.assoc)









lemma MixtureBlock_log_sum_exp_double_unfold:
  assumes "length weights = length ls" and "ls \<noteq> []"
  shows "MixtureBlock_log_sum_exp_double ls weights =
      Some (double_add
              (std_log (foldl (\<lambda>ret_val (w, v).
                                  double_add ret_val (double_mul (Finite w) (std_exp (v - Max (set ls)))))
                          (Finite 0) (zip weights ls)))
              (Finite (Max (set ls))))"
  using assms max_element_Max [of ls] by (simp add: MixtureBlock_log_sum_exp_double_def)

lemma MixtureBlock_log_sum_exp_double_in_range:
  assumes len: "length weights = length ls" and nonneg: "\<forall>w \<in> set weights. 0 \<le> w"
    and one: "sum_list weights = 1"
    and range: "\<forall>l \<in> set ls. std_exp l = Finite (exp l)
                  \<and> std_exp (l - Max (set ls)) = Finite (exp (l - Max (set ls)))"
  shows "MixtureBlock_log_sum_exp_double ls weights = Some (Finite (ln (\<Sum>(w, l) \<leftarrow> zip weights ls. w * exp l)))"
    and "plain_log_sum_exp ls weights = Finite (ln (\<Sum>(w, l) \<leftarrow> zip weights ls. w * exp l))"
proof -
  let ?m = "Max (set ls)"
  let ?S = "\<Sum>(w, l) \<leftarrow> zip weights ls. w * exp l"
  have "weights \<noteq> []"
    using one by auto
  then have ne: "ls \<noteq> []"
    using len by auto
  have "0 \<le> ?S" and "?S = 0 \<longrightarrow> sum_list weights = 0"
    using weighted_exp_sum_nonneg [OF len nonneg] by simp_all
  with one have pos: "0 < ?S"
    by (cases "?S = 0") simp_all
  have "\<forall>p \<in> set (zip weights ls). std_exp (snd p) = Finite (exp (snd p))"
    using range by (auto dest: set_zip_rightD)
  then have plain: "foldl (\<lambda>sum (w, v). double_add sum (double_mul (Finite w) (std_exp v))) (Finite 0)
        (zip weights ls) = Finite ?S"
    using foldl_double_sum [of "zip weights ls" std_exp exp 0] by simp
  have "\<forall>p \<in> set (zip weights ls). std_exp (snd p - ?m) = Finite (exp (snd p - ?m))"
    using range by (auto dest: set_zip_rightD)
  then have "foldl (\<lambda>ret_val (w, v). double_add ret_val (double_mul (Finite w) (std_exp (v - ?m))))
        (Finite 0) (zip weights ls) = Finite (\<Sum>(w, l) \<leftarrow> zip weights ls. w * exp (l - ?m))"
    using foldl_double_sum [of "zip weights ls" "\<lambda>v. std_exp (v - ?m)" "\<lambda>v. exp (v - ?m)" 0] by simp
  then have shifted: "foldl (\<lambda>ret_val (w, v). double_add ret_val (double_mul (Finite w) (std_exp (v - ?m))))
        (Finite 0) (zip weights ls) = Finite (exp (- ?m) * ?S)"
    by (simp only: weighted_exp_sum_shift)
  have "0 < exp (- ?m) * ?S"
    using pos by simp
  moreover have "ln (exp (- ?m) * ?S) + ?m = ln ?S"
    using pos by (simp add: ln_mult_pos)
  ultimately show "MixtureBlock_log_sum_exp_double ls weights = Some (Finite (ln ?S))"
    by (simp add: MixtureBlock_log_sum_exp_double_unfold [OF len ne] shifted)
  show "plain_log_sum_exp ls weights = Finite (ln ?S)"
    using pos by (simp add: plain_log_sum_exp_def plain)
qed


text \<open>
  In range, the computation on doubles returns the number that the computation in exact
  arithmetic returns, which \<open>evaluate\<close> of a mixture block is modelled by.
\<close>

lemma MixtureBlock_log_sum_exp_double_exact:
  assumes "length weights = length ls" and "\<forall>w \<in> set weights. 0 \<le> w" and "sum_list weights = 1"
    and "\<forall>l \<in> set ls. std_exp l = Finite (exp l)
           \<and> std_exp (l - Max (set ls)) = Finite (exp (l - Max (set ls)))"
  shows "MixtureBlock_log_sum_exp_double ls weights = map_option Finite (MixtureBlock_log_sum_exp ls weights)"
proof -
  have "weights \<noteq> []"
    using assms(3) by auto
  then have "ls \<noteq> []"
    using assms(1) by auto
  from MixtureBlock_log_sum_exp_plain [OF assms(1) this assms(2,3)]
    MixtureBlock_log_sum_exp_double_in_range(1) [OF assms]
  show ?thesis
    by simp
qed




text \<open>
  Claim C3 as stated fails: the factory returns a block for an empty list of components, and
  for a single weight zero; the empty mixture is refused by no later check either, its
  \<open>evaluate()\<close> dereferences the end of an empty vector.
\<close>

theorem Mixture_accepts_empty_and_zero_weights:
  "LogLikelihoodBlock_Mixture [] [] = Inr (MixtureBlock [] [])
   \<and> evaluate \<lparr>cache_parameters = (), cache_observables = [], cache_predictions = (\<lambda>i. 0)\<rparr>
        (MixtureBlock [] []) = None
   \<and> (\<exists>ws. LogLikelihoodBlock_Mixture [Block_Gaussian (GaussianBlock_ctor 0 (- 1) 0 1 1)] [0]
             = Inr (MixtureBlock [Block_Gaussian (GaussianBlock_ctor 0 (- 1) 0 1 1)] ws))"
  by (simp add: LogLikelihoodBlock_Mixture_def MixtureBlock_log_sum_exp_def)

lemma foldl_plus_sum_list_id: "foldl (\<lambda>sum w. sum + w) a ws = a + sum_list ws" for a :: real
  by (induction ws arbitrary: a) (simp_all add: add.assoc)

text \<open>
  Claim C3, as the code has it. The factory of the mixture block throws exactly when the
  numbers of components and of weights differ. With equal numbers it returns the block with
  every weight divided by the sum of the weights, for an empty list of components and for
  weights whose sum is zero as well; when the sum is not zero, the weights of the block
  sum to 1.
\<close>

theorem Mixture_factory_checks_lengths_only:
  "(length components \<noteq> length weights \<longrightarrow>
      LogLikelihoodBlock_Mixture components weights
        = Inl (InternalError ''LogLikelihoodBlock::Mixture(): components and weights don't match''))
   \<and> (length components = length weights \<longrightarrow>
        LogLikelihoodBlock_Mixture components weights
          = Inr (MixtureBlock components (map (\<lambda>w. w / sum_list weights) weights))
        \<and> (sum_list weights \<noteq> 0 \<longrightarrow>
             sum_list (map (\<lambda>w. w / sum_list weights) weights) = 1))"
proof -
  have "sum_list (map (\<lambda>w. w / sum_list weights) weights) = 1" if "sum_list weights \<noteq> 0"
  proof -
    have "sum_list (map (\<lambda>w. w * inverse (sum_list weights)) weights)
        = sum_list weights * inverse (sum_list weights)"
      by (simp add: sum_list_mult_const)
    then show ?thesis
      using that by (simp add: divide_inverse)
  qed
  moreover have "LogLikelihoodBlock_Mixture components weights
      = (if length components \<noteq> length weights
         then Inl (InternalError ''LogLikelihoodBlock::Mixture(): components and weights don't match'')
         else Inr (MixtureBlock components (map (\<lambda>w. w / sum_list weights) weights)))"
    by (simp add: LogLikelihoodBlock_Mixture_def foldl_plus_sum_list_id Let_def)
  ultimately show ?thesis
    by simp
qed

theorem Mixture_factory_checks_lengths_only_witness:
  "LogLikelihoodBlock_Mixture
      [Block_Gaussian (GaussianBlock_ctor 0 (- 1) 0 1 1), Block_Gaussian (GaussianBlock_ctor 0 (- 2) 0 2 1)]
      [1, 3]
    = Inr (MixtureBlock
        [Block_Gaussian (GaussianBlock_ctor 0 (- 1) 0 1 1), Block_Gaussian (GaussianBlock_ctor 0 (- 2) 0 2 1)]
        [1 / 4, 3 / 4])
   \<and> LogLikelihoodBlock_Mixture [Block_Gaussian (GaussianBlock_ctor 0 (- 1) 0 1 1)] [1, 3]
       = Inl (InternalError ''LogLikelihoodBlock::Mixture(): components and weights don't match'')"
  using Mixture_factory_checks_lengths_only
      [of "[Block_Gaussian (GaussianBlock_ctor 0 (- 1) 0 1 1), Block_Gaussian (GaussianBlock_ctor 0 (- 2) 0 2 1)]"
          "[1, 3]"]
    Mixture_factory_checks_lengths_only [of "[Block_Gaussian (GaussianBlock_ctor 0 (- 1) 0 1 1)]" "[1, 3]"]
  by simp

section \<open>Properties of the multivariate Gaussian block\<close>

lemma zip_map_upt:
  "zip (map f [0 ..< k]) (map g [0 ..< k]) = map (\<lambda>j. (f j, g j)) [0 ..< k]"
  by (simp add: zip_map_map zip_same_conv_map comp_def)

lemma list_as_map_nth: "length v = k \<Longrightarrow> v = map ((!) v) [0 ..< k]"
  using map_nth [of v] by simp

lemma gsl_blas_ddot_maps:
  "gsl_blas_ddot (map f [0 ..< k]) (map g [0 ..< k]) = (\<Sum>j \<leftarrow> [0 ..< k]. f j * g j)"
  by (simp add: gsl_blas_ddot_def zip_map_upt comp_def)

lemma gsl_vector_sub_maps:
  "gsl_vector_sub (map f [0 ..< k]) (map g [0 ..< k]) = map (\<lambda>i. f i - g i) [0 ..< k]"
  by (simp add: gsl_vector_sub_def zip_map_upt comp_def)

lemma sum_list_delta:
  "i < k \<Longrightarrow> (\<Sum>j \<leftarrow> [0 ..< k]. (if i = j then e else 0) * g j) = e * g i" for e :: real
  by (simp add: interv_sum_list_conv_sum_set_nat sum.delta if_distrib [of "\<lambda>x. x * _"] cong: if_cong)

lemma chi_square_diagonal:
  assumes "length mean = k" and "length e = k"
  shows "MultivariateGaussianBlock_chi_square c
           \<lparr>M_ids = ids, M_mean = mean, M_covariance = cov, M_number_of_observations = n,
            M_norm = nrm, M_chol = ch, M_covariance_inv = diagonal_matrix e\<rparr>
         = (\<Sum>i \<leftarrow> [0 ..< k]. e ! i * (ObservableCache_index c (ids ! i) - mean ! i)\<^sup>2)"
proof -
  let ?x = "\<lambda>i. ObservableCache_index c (ids ! i)"
  let ?v = "map (\<lambda>i. ?x i - mean ! i) [0 ..< k]"
  have mean: "mean = map ((!) mean) [0 ..< k]"
    using assms(1) by (rule list_as_map_nth)
  have sub: "gsl_vector_sub (map ?x [0 ..< k]) mean = ?v"
    by (subst mean) (simp only: gsl_vector_sub_maps)
  have row: "gsl_blas_ddot (map (\<lambda>j. if i = j then e ! i else 0) [0 ..< k]) ?v = e ! i * (?x i - mean ! i)"
    if "i < k" for i
    using that by (simp only: gsl_blas_ddot_maps sum_list_delta)
  have "gsl_blas_dgemv (diagonal_matrix e) ?v
      = map (\<lambda>i. gsl_blas_ddot (map (\<lambda>j. if i = j then e ! i else 0) [0 ..< k]) ?v) [0 ..< k]"
    using assms(2) by (simp add: gsl_blas_dgemv_def diagonal_matrix_def comp_def del: upt_Suc)
  also have "\<dots> = map (\<lambda>i. e ! i * (?x i - mean ! i)) [0 ..< k]"
    by (rule map_cong) (simp_all add: row del: upt_Suc)
  finally have gemv: "gsl_blas_dgemv (diagonal_matrix e) ?v = map (\<lambda>i. e ! i * (?x i - mean ! i)) [0 ..< k]" .
  have "gsl_blas_ddot ?v (map (\<lambda>i. e ! i * (?x i - mean ! i)) [0 ..< k])
      = (\<Sum>i \<leftarrow> [0 ..< k]. (?x i - mean ! i) * (e ! i * (?x i - mean ! i)))"
    by (simp only: gsl_blas_ddot_maps)
  also have "\<dots> = (\<Sum>i \<leftarrow> [0 ..< k]. e ! i * (?x i - mean ! i)\<^sup>2)"
    by (rule arg_cong [where f = sum_list], rule map_cong) (simp_all add: power2_eq_square)
  finally show ?thesis
    using assms(1)
    by (simp add: MultivariateGaussianBlock_chi_square_def sub gemv Let_def del: upt_Suc)
qed

lemma gsl_matrix_sizes_diagonal:
  "gsl_matrix_size1 (diagonal_matrix d) = length d" "gsl_matrix_size2 (diagonal_matrix d) = length d"
proof -
  show "gsl_matrix_size1 (diagonal_matrix d) = length d"
    by (simp add: gsl_matrix_size1_def diagonal_matrix_def)
  show "gsl_matrix_size2 (diagonal_matrix d) = length d"
  proof (cases "length d")
    case 0
    then show ?thesis
      by (simp add: gsl_matrix_size2_def diagonal_matrix_def)
  next
    case (Suc m)
    then have "[0 ..< length d] = 0 # [1 ..< length d]"
      by (simp add: upt_rec)
    then show ?thesis
      using Suc by (simp add: gsl_matrix_size2_def diagonal_matrix_def)
  qed
qed

lemma symmetric_gaussian_log_density:
  assumes "0 < s"
  shows "GaussianBlock_evaluate c (GaussianBlock_ctor i (m - s) m (m + s) n)
       = - (1 / 2) * ln (2 * pi) - (1 / 2) * ln (s * s)
         - (1 / 2) * (1 / (s * s) * (ObservableCache_index c i - m)\<^sup>2)"
proof -
  have "ln (sqrt (2 / pi) / (s + s)) = ln (sqrt (2 / pi)) - ln (2 * s)"
    using assms by (simp add: ln_div)
  also have "\<dots> = (1 / 2) * (ln 2 - ln pi) - (ln 2 + ln s)"
    using assms by (simp add: ln_sqrt ln_div ln_mult_pos)
  also have "\<dots> = - (1 / 2) * ln (2 * pi) - (1 / 2) * ln (s * s)"
    using assms by (simp add: ln_mult_pos algebra_simps)
  finally have nrm: "ln (sqrt (2 / pi) / (s + s)) = - (1 / 2) * ln (2 * pi) - (1 / 2) * ln (s * s)" .
  have "((ObservableCache_index c i - m) / s)\<^sup>2 = 1 / (s * s) * (ObservableCache_index c i - m)\<^sup>2"
    by (simp add: power2_eq_square)
  then show ?thesis
    using nrm by (simp add: GaussianBlock_evaluate_def GaussianBlock_ctor_def power_of_2_def Let_def
        power2_eq_square)
qed

text \<open>
  Claim C6. A multivariate Gaussian block whose covariance matrix is diagonal, with entries
  \<open>\<sigma>\<^sub>i\<^sup>2\<close> for positive \<open>\<sigma>\<^sub>i\<close> and zeros elsewhere, is constructed, and for all cached
  values its \<open>evaluate()\<close> is the sum over \<open>i\<close> of \<open>evaluate()\<close> of the symmetric Gaussian
  block for the \<open>i\<close>-th observable with mode \<open>mean\<^sub>i\<close> and both widths \<open>\<sigma>\<^sub>i\<close>, that is, of
  the univariate Gaussian log-density with standard deviation \<open>\<sigma>\<^sub>i\<close>.
\<close>

theorem MultivariateGaussian_diagonal_covariance:
  assumes len: "length ids = length sigmas" "length mean = length sigmas"
    and pos: "\<forall>s \<in> set sigmas. 0 < s"
    and gsl: "gsl_linalg_diagonal_contract G (map (\<lambda>s. s * s) sigmas)"
  shows "\<exists>b. MultivariateGaussianBlock_ctor G ids mean (diagonal_matrix (map (\<lambda>s. s * s) sigmas)) n = Inr b
           \<and> (\<forall>c :: 'q ObservableCache.
                MultivariateGaussianBlock_evaluate c b =
                  (\<Sum>i \<leftarrow> [0 ..< length sigmas].
                     GaussianBlock_evaluate c
                       (GaussianBlock_ctor (ids ! i) (mean ! i - sigmas ! i) (mean ! i)
                          (mean ! i + sigmas ! i) n)))"
proof -
  let ?k = "length sigmas"
  let ?d = "map (\<lambda>s. s * s) sigmas"
  let ?e = "map (\<lambda>x. 1 / x) ?d"
  let ?nrm = "- (1 / 2) * real ?k * ln (2 * pi) - (1 / 2) * (\<Sum>x \<leftarrow> ?d. ln x)"
  let ?b = "\<lparr>M_ids = ids, M_mean = mean, M_covariance = diagonal_matrix ?d,
             M_number_of_observations = n, M_norm = ?nrm,
             M_chol = zero_upper_part (gsl_linalg_cholesky_decomp G (diagonal_matrix ?d)),
             M_covariance_inv = diagonal_matrix ?e\<rparr>"
  have made: "MultivariateGaussianBlock_ctor G ids mean (diagonal_matrix ?d) n = Inr ?b"
    using len gsl
    by (simp add: MultivariateGaussianBlock_ctor_def MultivariateGaussianBlock_compute_norm_def
        gsl_matrix_sizes_diagonal gsl_linalg_diagonal_contract_def Let_def)
  have ev: "MultivariateGaussianBlock_evaluate c ?b =
      (\<Sum>i \<leftarrow> [0 ..< ?k].
         GaussianBlock_evaluate c
           (GaussianBlock_ctor (ids ! i) (mean ! i - sigmas ! i) (mean ! i) (mean ! i + sigmas ! i) n))"
    for c :: "'q ObservableCache"
  proof -
    let ?x = "\<lambda>i. ObservableCache_index c (ids ! i)"
    have chi: "MultivariateGaussianBlock_chi_square c ?b
        = (\<Sum>i \<leftarrow> [0 ..< ?k]. ?e ! i * (?x i - mean ! i)\<^sup>2)"
      using len by (intro chi_square_diagonal) simp_all
    have d: "(\<Sum>x \<leftarrow> ?d. ln x) = (\<Sum>i \<leftarrow> [0 ..< ?k]. ln (sigmas ! i * sigmas ! i))"
    proof -
      have "?d = map (\<lambda>i. sigmas ! i * sigmas ! i) [0 ..< ?k]"
        by (rule nth_equalityI) simp_all
      then show ?thesis
        by (simp add: comp_def)
    qed
    have each: "GaussianBlock_evaluate c
           (GaussianBlock_ctor (ids ! i) (mean ! i - sigmas ! i) (mean ! i) (mean ! i + sigmas ! i) n)
        = - (1 / 2) * ln (2 * pi) - (1 / 2) * ln (sigmas ! i * sigmas ! i)
          - (1 / 2) * (?e ! i * (?x i - mean ! i)\<^sup>2)" if "i < ?k" for i
      using that pos by (simp add: symmetric_gaussian_log_density)
    have "(\<Sum>i \<leftarrow> [0 ..< ?k].
         GaussianBlock_evaluate c
           (GaussianBlock_ctor (ids ! i) (mean ! i - sigmas ! i) (mean ! i) (mean ! i + sigmas ! i) n))
        = (\<Sum>i \<leftarrow> [0 ..< ?k]. - (1 / 2) * ln (2 * pi) - (1 / 2) * ln (sigmas ! i * sigmas ! i)
          - (1 / 2) * (?e ! i * (?x i - mean ! i)\<^sup>2))"
      by (rule arg_cong [where f = sum_list], rule map_cong) (simp_all add: each del: upt_Suc)
    also have "\<dots> = ?nrm - (1 / 2) * (\<Sum>i \<leftarrow> [0 ..< ?k]. ?e ! i * (?x i - mean ! i)\<^sup>2)"
      unfolding d interv_sum_list_conv_sum_set_nat
      by (simp add: sum_subtractf sum_distrib_left del: upt_Suc)
    finally have sum_eq: "(\<Sum>i \<leftarrow> [0 ..< ?k].
         GaussianBlock_evaluate c
           (GaussianBlock_ctor (ids ! i) (mean ! i - sigmas ! i) (mean ! i) (mean ! i + sigmas ! i) n))
        = ?nrm - (1 / 2) * (\<Sum>i \<leftarrow> [0 ..< ?k]. ?e ! i * (?x i - mean ! i)\<^sup>2)" .
    have "MultivariateGaussianBlock_evaluate c ?b
        = ?nrm - (1 / 2) * MultivariateGaussianBlock_chi_square c ?b"
      by (simp add: MultivariateGaussianBlock_evaluate_def)
    then show ?thesis
      by (simp only: chi sum_eq)
  qed
  show ?thesis
    using made ev by blast
qed

lemma diagonal_matrix_2: "diagonal_matrix [a, b] = [[a, 0], [0, b]]"
  by (simp add: diagonal_matrix_def upt_rec)

theorem MultivariateGaussian_diagonal_covariance_witness:
  "\<exists>b. MultivariateGaussianBlock_ctor gsl_at_shape_one [0, 1] [0, 1] (diagonal_matrix [1, 4]) 1 = Inr b
      \<and> MultivariateGaussianBlock_evaluate
           \<lparr>cache_parameters = (), cache_observables = [\<lambda>p. 0, \<lambda>p. 0], cache_predictions = (\<lambda>i. 0)\<rparr> b
         = GaussianBlock_evaluate
             \<lparr>cache_parameters = (), cache_observables = [\<lambda>p. 0, \<lambda>p. 0], cache_predictions = (\<lambda>i. 0)\<rparr>
             (GaussianBlock_ctor 0 (- 1) 0 1 1)
           + GaussianBlock_evaluate
             \<lparr>cache_parameters = (), cache_observables = [\<lambda>p. 0, \<lambda>p. 0], cache_predictions = (\<lambda>i. 0)\<rparr>
             (GaussianBlock_ctor 1 (- 1) 1 3 1)"
proof -
  have len: "length [0, 1 :: Id] = length [1, 2 :: real]" "length [0, 1 :: real] = length [1, 2 :: real]"
    and pos: "\<forall>s \<in> set [1, 2 :: real]. 0 < s"
    by simp_all
  have gsl: "gsl_linalg_diagonal_contract gsl_at_shape_one (map (\<lambda>s. s * s) [1, 2])"
    by (simp add: gsl_linalg_diagonal_contract_def gsl_at_shape_one_def diagonal_matrix_2 upt_rec)
  from MultivariateGaussian_diagonal_covariance [where ?'q = unit, OF len pos gsl, of 1]
  show ?thesis
    by (auto simp: upt_rec)
qed

section \<open>Properties of the observable factory\<close>

lemma rfind_None_iff: "rfind s c = None \<longleftrightarrow> c \<notin> set s"
  by (induction s) (auto split: option.splits)

lemma rfind_Some_decompose:
  "rfind s c = Some pos \<Longrightarrow> \<exists>pre suf. s = pre @ c # suf \<and> c \<notin> set suf \<and> pos = length pre"
proof (induction s arbitrary: pos)
  case Nil
  then show ?case by simp
next
  case (Cons x xs)
  show ?case
  proof (cases "rfind xs c")
    case None
    with Cons.prems have "x = c" and "pos = 0"
      by (auto split: if_splits)
    moreover from None have "c \<notin> set xs"
      by (simp add: rfind_None_iff)
    ultimately show ?thesis
      by (intro exI [of _ "[]"] exI [of _ xs]) simp
  next
    case (Some p)
    with Cons.prems have pos: "pos = Suc p"
      by simp
    from Cons.IH [OF Some] obtain pre suf where "xs = pre @ c # suf" "c \<notin> set suf" "p = length pre"
      by blast
    then show ?thesis
      using pos by (intro exI [of _ "x # pre"] exI [of _ suf]) simp
  qed
qed

lemma find_first_None_iff: "find_first s c = None \<longleftrightarrow> c \<notin> set s"
  by (induction s) auto

lemma find_first_Some:
  "find_first s c = Some i \<Longrightarrow>
     take i s = takeWhile (\<lambda>x. x \<noteq> c) s \<and> drop (Suc i) s = drop 1 (dropWhile (\<lambda>x. x \<noteq> c) s)"
  by (induction s arbitrary: i) (auto split: if_splits)

lemma split_commas_not_Nil: "split_commas s \<noteq> []"
  by (induction s) (auto split: list.splits)

lemma split_commas_no_comma: "CHR '','' \<notin> set s \<Longrightarrow> split_commas s = [s]"
  by (induction s) auto

lemma split_commas_append:
  "split_commas (pre @ CHR '','' # suf) = split_commas pre @ split_commas suf"
proof (induction pre)
  case Nil
  then show ?case by simp
next
  case (Cons x pre)
  then show ?case
    using split_commas_not_Nil [of pre] by (auto split: list.splits)
qed

lemma strip_options_split:
  "strip_options Opt arg_name name options =
     (if list_ex (\<lambda>clause. CHR ''='' \<notin> set clause) (tl (split_commas name))
      then Inl (ObservableNameError arg_name)
      else Inr (hd (split_commas name),
                foldr (\<lambda>clause options. Options_set Opt options (clause_key clause) (clause_value clause))
                  (tl (split_commas name)) options))"
proof (induction Opt arg_name name options rule: strip_options.induct)
  case (1 Opt arg_name name options)
  let ?no_eq = "\<lambda>clause. CHR ''='' \<notin> set clause"
  let ?step = "\<lambda>clause options. Options_set Opt options (clause_key clause) (clause_value clause)"
  show ?case
  proof (cases "rfind name CHR '',''")
    case None
    then have "split_commas name = [name]"
      by (simp add: rfind_None_iff split_commas_no_comma)
    with None show ?thesis
      by (subst strip_options.simps) simp
  next
    case (Some pos)
    from rfind_Some_decompose [OF Some] obtain pre suf
      where name: "name = pre @ CHR '','' # suf" and suf: "CHR '','' \<notin> set suf"
        and pos: "pos = length pre"
      by blast
    have pre: "take pos name = pre"
      by (simp add: name pos)
    have split: "split_commas name = split_commas pre @ [suf]"
      by (simp add: name split_commas_append split_commas_no_comma suf)
    then have tl: "tl (split_commas name) = tl (split_commas pre) @ [suf]"
      and hd: "hd (split_commas name) = hd (split_commas pre)"
      using split_commas_not_Nil [of pre] by simp_all
    have drop: "drop (pos + 1) name = suf"
      by (simp add: name pos)
    have "pos + 1 \<le> length name"
      by (simp add: name pos)
    then have find: "find_from name CHR ''='' (pos + 1) = map_option (\<lambda>i. pos + 1 + i) (find_first suf CHR ''='')"
      using drop by (cases "find_first suf CHR ''=''") (simp_all add: find_from_def)
    show ?thesis
    proof (cases "find_first suf CHR ''=''")
      case None
      then have "?no_eq suf"
        by (simp add: find_first_None_iff)
      moreover have "strip_options Opt arg_name name options = Inl (ObservableNameError arg_name)"
        using Some find None by (subst strip_options.simps) simp
      ultimately show ?thesis
        by (simp add: tl)
    next
      case (Some i)
      then have has_eq: "\<not> ?no_eq suf"
        using find_first_None_iff [of suf "CHR ''=''"] by auto
      let ?sep = "pos + 1 + i"
      have sep: "find_from name CHR ''='' (pos + 1) = Some ?sep"
        using find Some by simp
      have key: "substr name (pos + 1) (?sep - pos - 1) = clause_key suf"
        using find_first_Some [OF Some] drop by (simp add: substr_def clause_key_def)
      have "drop (?sep + 1) name = drop (Suc i) suf"
        by (simp add: name pos)
      then have val: "substr_to_end name (?sep + 1) = clause_value suf"
        using find_first_Some [OF Some] by (simp add: substr_to_end_def clause_value_def)
      have "strip_options Opt arg_name name options
          = strip_options Opt arg_name pre (?step suf options)"
        using \<open>rfind name CHR '','' = Some pos\<close> sep key val
        by (subst strip_options.simps) (simp add: erase_def Let_def pre)
      also have "\<dots> =
          (if list_ex ?no_eq (tl (split_commas pre))
           then Inl (ObservableNameError arg_name)
           else Inr (hd (split_commas pre), foldr ?step (tl (split_commas pre)) (?step suf options)))"
        using "1.IH" [OF \<open>rfind name CHR '','' = Some pos\<close> sep refl refl]
        by (simp only: erase_def key val pre)
      finally show ?thesis
        using has_eq by (simp add: tl hd)
    qed
  qed
qed

text \<open>
  Claim C8. For every name, \<open>Observable::make\<close> does what the contract says: the parts of
  the name after its commas are stripped from right to left and recorded, each as a key and a
  value, before the rest of the name is looked up in the registry; a part after a comma that
  has no \<open>=\<close> raises \<open>ObservableNameError\<close> for the name as given; and when every such part
  has one and the stripped name is not in the registry, the result is the null pointer and
  no error.
\<close>

theorem Observable_make_follows_contract:
  "Observable_make Opt simple_observables factory_make arg_name parameters kinematics arg_options
     = Observable_make_spec Opt simple_observables factory_make arg_name parameters kinematics arg_options
   \<and> ((\<exists>clause \<in> set (tl (split_commas arg_name)). CHR ''='' \<notin> set clause) \<longrightarrow>
        Observable_make Opt simple_observables factory_make arg_name parameters kinematics arg_options
          = Inl (ObservableNameError arg_name))
   \<and> ((\<forall>clause \<in> set (tl (split_commas arg_name)). CHR ''='' \<in> set clause)
        \<and> simple_observables (hd (split_commas arg_name)) = None \<longrightarrow>
        Observable_make Opt simple_observables factory_make arg_name parameters kinematics arg_options
          = Inr None)"
  by (auto simp: Observable_make_def Observable_make_spec_def strip_options_split Let_def
      list_ex_iff)

theorem Observable_make_follows_contract_witness:
  "Observable_make
      \<lparr>Options_empty = [], Options_set = (\<lambda>options key value. (key, value) # options),
       Options_plus = (\<lambda>lhs rhs. lhs @ rhs)\<rparr>
      [''B->K^*ll::BR@LowRecoil'' \<mapsto> (7 :: nat)] (\<lambda>factory p k options. Some (factory, options))
      ''B->K^*ll::BR@LowRecoil,model=SM,l=mu'' () () [(''q'', ''d'')]
    = Inr (Some (7, [(''model'', ''SM''), (''l'', ''mu''), (''q'', ''d'')]))
   \<and> Observable_make
      \<lparr>Options_empty = [], Options_set = (\<lambda>options key value. (key, value) # options),
       Options_plus = (\<lambda>lhs rhs. lhs @ rhs)\<rparr>
      [''B->K^*ll::BR@LowRecoil'' \<mapsto> (7 :: nat)] (\<lambda>factory p k options. Some (factory, options))
      ''B->K^*ll::BR@LowRecoil,model,l=mu'' () () [(''q'', ''d'')]
    = Inl (ObservableNameError ''B->K^*ll::BR@LowRecoil,model,l=mu'')
   \<and> Observable_make
      \<lparr>Options_empty = [], Options_set = (\<lambda>options key value. (key, value) # options),
       Options_plus = (\<lambda>lhs rhs. lhs @ rhs)\<rparr>
      [''B->K^*ll::BR@LowRecoil'' \<mapsto> (7 :: nat)] (\<lambda>factory p k options. Some (factory, options))
      ''B->K^*ll::BR,l=mu'' () () [(''q'', ''d'')]
    = Inr None"
  using
    Observable_make_follows_contract [of
      "\<lparr>Options_empty = [], Options_set = (\<lambda>options key value. (key, value) # options),
        Options_plus = (\<lambda>lhs rhs. lhs @ rhs)\<rparr>"
      "[''B->K^*ll::BR@LowRecoil'' \<mapsto> (7 :: nat)]" "\<lambda>factory p k options. Some (factory, options)"
      "''B->K^*ll::BR@LowRecoil,model=SM,l=mu''" "()" "()" "[(''q'', ''d'')]"]
    Observable_make_follows_contract [of
      "\<lparr>Options_empty = [], Options_set = (\<lambda>options key value. (key, value) # options),
        Options_plus = (\<lambda>lhs rhs. lhs @ rhs)\<rparr>"
      "[''B->K^*ll::BR@LowRecoil'' \<mapsto> (7 :: nat)]" "\<lambda>factory p k options. Some (factory, options)"
      "''B->K^*ll::BR@LowRecoil,model,l=mu''" "()" "()" "[(''q'', ''d'')]"]
    Observable_make_follows_contract [of
      "\<lparr>Options_empty = [], Options_set = (\<lambda>options key value. (key, value) # options),
        Options_plus = (\<lambda>lhs rhs. lhs @ rhs)\<rparr>"
      "[''B->K^*ll::BR@LowRecoil'' \<mapsto> (7 :: nat)]" "\<lambda>factory p k options. Some (factory, options)"
      "''B->K^*ll::BR,l=mu''" "()" "()" "[(''q'', ''d'')]"]
  by (simp add: Observable_make_spec_def clause_key_def clause_value_def)

section \<open>Properties of the bootstrap\<close>

lemma collect_samples_no_constraints:
  "constraints = [] \<Longrightarrow> t_obs \<le> 0 \<Longrightarrow>
     collect_samples G R cache constraints t_obs datasets i n_low rng = Some (Inr n_low)"
proof (induction G R cache constraints t_obs datasets i n_low rng rule: collect_samples.induct)
  case (1 G R cache constraints t_obs datasets i n_low rng)
  show ?case
  proof (cases "i < datasets")
    case True
    have "sample_constraints G R cache constraints 0 rng = Some (Inr (0, rng))"
      using "1.prems" by simp
    moreover have "\<not> 0 < t_obs"
      using "1.prems" by simp
    ultimately show ?thesis
      using True "1.IH" [of "Inr (0, rng)" "(0, rng)" 0 rng] "1.prems"
      by (subst collect_samples.simps) simp
  next
    case False
    then show ?thesis
      by (subst collect_samples.simps) simp
  qed
qed

text \<open>
  Claim C1, where the code leaves it. The sums \<open>datasets + 2\<close>, \<open>datasets + 3\<close> and
  \<open>n_low + 1\<close> are sums of \<open>unsigned\<close> and wrap around. For a likelihood with no constraint
  and \<open>datasets = 4294967295\<close> no toy total is below the observed total, so \<open>n_low = 0\<close>;
  \<open>datasets + 2\<close> is 1 and \<open>datasets + 3\<close> is 2, so \<open>p_expected\<close> is 1 and the function
  returns the uncertainty 0, where the formula of the claim with \<open>p_expected = 1 / 4294967297\<close>
  gives a positive number.
\<close>

theorem bootstrap_p_value_wraps_around:
  "bootstrap_p_value G R cache [] 4294967295 = Some (Inr (Finite 0, Finite 0))
   \<and> sqrt ((0 + 1) / (4294967295 + 2) * (1 - (0 + 1) / (4294967295 + 2)) / (4294967295 + 3)) \<noteq> (0 :: real)"
proof -
  have "double (4294967295 + 2) = 1" and "double (4294967295 + 3) = 2" and "double (0 + 1) = 1"
    and "double 0 = 0" and "double 4294967295 = 4294967295"
    by (simp_all add: double_def)
  then show ?thesis
    by (simp add: bootstrap_p_value_def collect_samples_no_constraints)
qed

lemma collect_samples_counts:
  "i \<le> datasets \<Longrightarrow>
   toy_totals G R cache constraints (unat datasets - unat i) rng = Some toys \<Longrightarrow>
   collect_samples G R cache constraints t_obs datasets i n_low rng
     = Some (Inr (n_low + of_nat (length (filter (\<lambda>t. t < t_obs) toys))))"
proof (induction G R cache constraints t_obs datasets i n_low rng arbitrary: toys
    rule: collect_samples.induct)
  case (1 G R cache constraints t_obs datasets i n_low rng)
  show ?case
  proof (cases "i < datasets")
    case False
    with "1.prems" have "i = datasets"
      by simp
    with "1.prems" have "toys = []"
      by simp
    with False show ?thesis
      by (subst collect_samples.simps) simp
  next
    case True
    then have step: "unat (i + 1) = Suc (unat i)"
      by (rule unsigned_increment)
    have lt: "unat i < unat datasets"
      using True by (simp add: word_less_nat_alt)
    then have remaining: "unat datasets - unat i = Suc (unat datasets - unat (i + 1))"
      using step by simp
    from "1.prems"(2) obtain t rng' rest
      where draw: "sample_constraints G R cache constraints 0 rng = Some (Inr (t, rng'))"
        and rest: "toy_totals G R cache constraints (unat datasets - unat (i + 1)) rng' = Some rest"
        and toys: "toys = t # rest"
      unfolding remaining by (auto split: option.splits sum.splits)
    have le: "i + 1 \<le> datasets"
      using True by (rule inc_le)
    have "collect_samples G R cache constraints t_obs datasets i n_low rng
        = collect_samples G R cache constraints t_obs datasets (i + 1)
            (if t < t_obs then n_low + 1 else n_low) rng'"
      using True draw by (subst collect_samples.simps) simp
    also have "\<dots> = Some (Inr ((if t < t_obs then n_low + 1 else n_low)
                       + of_nat (length (filter (\<lambda>t. t < t_obs) rest))))"
      using "1.IH" [OF True draw refl refl le rest] .
    finally show ?thesis
      by (simp add: toys)
  qed
qed

lemma toy_totals_length:
  "toy_totals G R cache constraints n rng = Some toys \<Longrightarrow> length toys = n"
  by (induction n arbitrary: rng toys) (auto split: option.splits sum.splits)

lemma double_of_nat: "m < 2 ^ 32 \<Longrightarrow> double (of_nat m) = real m"
  by (simp add: double_def unat_of_nat)

lemma double_plus:
  "unat n + k < 2 ^ 32 \<Longrightarrow> double (n + of_nat k) = real (unat n) + real k"
proof -
  assume a: "unat n + k < 2 ^ 32"
  then have k: "unat (of_nat k :: unsigned) = k"
    by (simp add: unat_of_nat)
  with a have "unat n + unat (of_nat k :: unsigned) < 2 ^ LENGTH(32)"
    by simp
  then have "unat (n + of_nat k) = unat n + unat (of_nat k :: unsigned)"
    by (simp only: unat_add_lem)
  then show ?thesis
    by (simp add: double_def k)
qed

lemma binomial_variance_nonneg:
  fixes n d :: real
  assumes "0 \<le> n" and "n \<le> d"
  shows "0 \<le> (n + 1) / (d + 2) * (1 - (n + 1) / (d + 2)) / (d + 3)"
proof -
  have d: "0 < d + 2" "0 \<le> d + 3"
    using assms by simp_all
  have "n + 1 \<le> d + 2"
    using assms by simp
  with d(1) have "(n + 1) / (d + 2) \<le> 1"
    by (simp only: divide_le_eq_1_pos)
  moreover have "0 \<le> (n + 1) / (d + 2)"
    using assms d by (intro divide_nonneg_nonneg) simp_all
  ultimately have "0 \<le> (n + 1) / (d + 2) * (1 - (n + 1) / (d + 2))"
    by (intro mult_nonneg_nonneg) simp_all
  then show ?thesis
    using d(2) by (rule divide_nonneg_nonneg)
qed

text \<open>
  Where no sum wraps around and \<open>datasets\<close> is not zero, that is for
  \<open>0 < datasets\<close> and \<open>datasets + 3 < 2\<^sup>3\<^sup>2\<close>, \<open>bootstrap_p_value\<close> returns what claim C1
  says: with \<open>t_obs\<close> the observed total, the generator seeded with \<open>datasets\<close> and \<open>n_low\<close>
  the number of the \<open>datasets\<close> toy totals that are below \<open>t_obs\<close>, the pair of the numbers
  \<open>p = n_low / datasets\<close> and \<open>sqrt (p_expected * (1 - p_expected) / (datasets + 3))\<close> with
  \<open>p_expected = (n_low + 1) / (datasets + 2)\<close>.
\<close>

lemma bootstrap_p_value_without_wrap_around:
  assumes small: "unat datasets + 3 < 2 ^ 32" and some: "datasets \<noteq> 0"
    and observed: "observed_constraints cache constraints 0 = Some t_obs"
    and toys: "toy_totals G R cache constraints (unat datasets) (gsl_rng_set R datasets) = Some toys"
  shows "bootstrap_p_value G R cache constraints datasets =
           Some (Inr (Finite (real (length (filter (\<lambda>t. t < t_obs) toys)) / real (unat datasets)),
                      Finite (sqrt ((real (length (filter (\<lambda>t. t < t_obs) toys)) + 1) / (real (unat datasets) + 2)
                            * (1 - (real (length (filter (\<lambda>t. t < t_obs) toys)) + 1) / (real (unat datasets) + 2))
                            / (real (unat datasets) + 3)))))"
proof -
  let ?n_low = "length (filter (\<lambda>t. t < t_obs) toys)"
  have "?n_low \<le> length toys"
    by simp
  then have n_low: "?n_low \<le> unat datasets"
    using toy_totals_length [OF toys] by simp
  have collected: "collect_samples G R cache constraints t_obs datasets 0 0 (gsl_rng_set R datasets)
      = Some (Inr (of_nat ?n_low))"
    using collect_samples_counts [of 0 datasets G R cache constraints "gsl_rng_set R datasets" toys t_obs 0] toys
    by simp
  have d1: "double (of_nat ?n_low) = real ?n_low"
    using n_low small by (intro double_of_nat) simp
  have d2: "double (of_nat ?n_low + 1) = real ?n_low + 1"
  proof -
    have "double (of_nat (?n_low + 1)) = real (?n_low + 1)"
      using n_low small by (intro double_of_nat) simp
    then show ?thesis
      by (simp add: add.commute)
  qed
  have d3: "double (datasets + 2) = real (unat datasets) + 2"
    using double_plus [of datasets 2] small by simp
  have d4: "double (datasets + 3) = real (unat datasets) + 3"
    using double_plus [of datasets 3] small by simp
  have d5: "double datasets = real (unat datasets)" and d6: "real (unat datasets) \<noteq> 0"
    using some by (simp_all add: double_def unsigned_eq_0_iff)
  have "0 \<le> real ?n_low"
    by (rule of_nat_0_le_iff)
  moreover have "real ?n_low \<le> real (unat datasets)"
    using n_low by (rule of_nat_mono)
  ultimately have "0 \<le> (real ?n_low + 1) / (real (unat datasets) + 2)
      * (1 - (real ?n_low + 1) / (real (unat datasets) + 2)) / (real (unat datasets) + 3)"
    by (rule binomial_variance_nonneg)
  moreover have "0 \<le> real (unat datasets)"
    by (rule of_nat_0_le_iff)
  then have "real (unat datasets) + 2 \<noteq> 0" and "real (unat datasets) + 3 \<noteq> 0"
    by linarith+
  ultimately show ?thesis
    using d6 by (simp add: bootstrap_p_value_def observed collected d1 d2 d3 d4 d5 Let_def)
qed

text \<open>For \<open>datasets = 0\<close> no toy total is drawn, and \<open>p\<close> is the quotient of two zeros.\<close>

lemma bootstrap_p_value_no_datasets:
  assumes "observed_constraints cache constraints 0 = Some t_obs"
  shows "bootstrap_p_value G R cache constraints 0 = Some (Inr (NaN, Finite (sqrt (1 / 12))))"
proof -
  have "collect_samples G R cache constraints t_obs 0 0 0 (gsl_rng_set R 0) = Some (Inr 0)"
    by (subst collect_samples.simps) simp
  moreover have "double 0 = 0" and "double (0 + 1) = 1" and "double (0 + 2) = 2" and "double (0 + 3) = 3"
    by (simp_all add: double_def)
  ultimately show ?thesis
    using assms by (simp add: bootstrap_p_value_def real_sqrt_divide)
qed

section \<open>Properties of cloning\<close>

lemma ObservableCache_index_update:
  "i < length (cache_observables c) \<Longrightarrow>
     ObservableCache_index (ObservableCache_update c) i = (cache_observables c ! i) (cache_parameters c)"
  by (simp add: ObservableCache_index_def ObservableCache_update_def)

lemma cache_extends_refl: "cache_extends c c"
  by (simp add: cache_extends_def)

lemma cache_extends_length:
  "cache_extends c c' \<Longrightarrow> length (cache_observables c) \<le> length (cache_observables c')"
  by (metis cache_extends_def length_take min.cobounded1 min.commute)

lemma cache_extends_nth:
  "cache_extends c c' \<Longrightarrow> i < length (cache_observables c) \<Longrightarrow>
     cache_observables c' ! i = cache_observables c ! i"
  by (metis cache_extends_def nth_take)

lemma cache_extends_trans:
  assumes "cache_extends a b" and "cache_extends b c"
  shows "cache_extends a c"
proof -
  have le: "length (cache_observables a) \<le> length (cache_observables b)"
    using assms(1) by (rule cache_extends_length)
  have "take (length (cache_observables a)) (cache_observables c)
      = take (length (cache_observables a)) (take (length (cache_observables b)) (cache_observables c))"
    using le by (simp add: min_def)
  also have "\<dots> = take (length (cache_observables a)) (cache_observables b)"
    using assms(2) by (simp only: cache_extends_def)
  also have "\<dots> = cache_observables a"
    using assms(1) by (simp only: cache_extends_def)
  finally show ?thesis
    using assms by (simp add: cache_extends_def)
qed

lemma cache_extends_add:
  "ObservableCache_add c observable = (index, c') \<Longrightarrow>
     cache_extends c c' \<and> index = length (cache_observables c)
     \<and> cache_observables c' = cache_observables c @ [observable]"
  by (auto simp: ObservableCache_add_def cache_extends_def)

text \<open>The value that an observable added from the source cache has in any later state of
  the target cache, after an update.\<close>

lemma cloned_observable_value:
  assumes add: "ObservableCache_add tgt (Observable_clone (ObservableCache_observable src i) (cache_parameters tgt))
                  = (index, tgt')"
    and par: "cache_parameters tgt = cache_parameters src"
    and i: "i < length (cache_observables src)"
    and ext: "cache_extends tgt' c"
  shows "ObservableCache_index (ObservableCache_update c) index
           = ObservableCache_index (ObservableCache_update src) i"
proof -
  from cache_extends_add [OF add]
  have e: "cache_extends tgt tgt'" and index: "index = length (cache_observables tgt)"
    and obs: "cache_observables tgt' = cache_observables tgt @ [cache_observables src ! i]"
    by (simp_all add: Observable_clone_def ObservableCache_observable_def)
  have lt: "index < length (cache_observables tgt')"
    by (simp add: index obs)
  then have "index < length (cache_observables c)"
    using cache_extends_length [OF ext] by simp
  moreover have "cache_observables c ! index = cache_observables src ! i"
    using cache_extends_nth [OF ext lt] by (simp add: obs index)
  moreover have "cache_parameters c = cache_parameters src"
    using ext e par by (simp add: cache_extends_def)
  ultimately show ?thesis
    using i by (simp add: ObservableCache_index_update)
qed

lemma GaussianBlock_clone_sound:
  assumes "constructed G src (Block_Gaussian b)" and "cache_parameters tgt = cache_parameters src"
    and "GaussianBlock_clone src b tgt = (b', tgt')"
  shows "cache_extends tgt tgt'"
    and "cache_extends tgt' c \<Longrightarrow>
           GaussianBlock_evaluate (ObservableCache_update c) b' = GaussianBlock_evaluate (ObservableCache_update src) b"
proof -
  obtain index where add: "ObservableCache_add tgt
      (Observable_clone (ObservableCache_observable src (G_id b)) (cache_parameters tgt)) = (index, tgt')"
    and b': "b' = GaussianBlock_ctor index (G_mode b - G_sigma_lower b) (G_mode b) (G_mode b + G_sigma_upper b)
            (G_number_of_observations b)"
    using assms(3) by (auto simp: GaussianBlock_clone_def Let_def split: prod.splits)
  show "cache_extends tgt tgt'"
    using cache_extends_add [OF add] by simp
  assume ext: "cache_extends tgt' c"
  have id: "G_id b < length (cache_observables src)"
    and b: "b = GaussianBlock_ctor (G_id b) (G_mode b - G_sigma_lower b) (G_mode b) (G_mode b + G_sigma_upper b)
             (G_number_of_observations b)"
    using assms(1) by simp_all
  have fields: "G_mode b' = G_mode b" "G_sigma_lower b' = G_sigma_lower b" "G_sigma_upper b' = G_sigma_upper b"
    "G_id b' = index"
    by (simp_all add: b' GaussianBlock_ctor_def Let_def)
  have "G_norm b' = G_norm (GaussianBlock_ctor (G_id b) (G_mode b - G_sigma_lower b) (G_mode b)
      (G_mode b + G_sigma_upper b) (G_number_of_observations b))"
    by (simp add: b' GaussianBlock_ctor_def Let_def)
  then have norm: "G_norm b' = G_norm b"
    using b by simp
  show "GaussianBlock_evaluate (ObservableCache_update c) b' = GaussianBlock_evaluate (ObservableCache_update src) b"
    using cloned_observable_value [OF add assms(2) id ext]
    by (simp add: GaussianBlock_evaluate_def fields norm Let_def cong: if_cong)
qed

lemma LogGammaBlock_clone_sound:
  assumes "constructed G src (Block_LogGamma b)" and "cache_parameters tgt = cache_parameters src"
    and "LogGammaBlock_clone G src b tgt = (r, tgt')"
  shows "cache_extends tgt tgt'"
    and "(\<exists>e. r = Inl e) \<longleftrightarrow> \<not> LogGammaBlock_calibrated G b"
    and "r = Inl e \<Longrightarrow> \<exists>msg. e = InternalError msg"
    and "r = Inr b' \<Longrightarrow> cache_extends tgt' c \<Longrightarrow>
           LogGammaBlock_evaluate (ObservableCache_update c) b' = LogGammaBlock_evaluate (ObservableCache_update src) b"
proof -
  obtain index where add: "ObservableCache_add tgt
      (Observable_clone (ObservableCache_observable src (L_id b)) (cache_parameters tgt)) = (index, tgt')"
    and r: "r = LogGammaBlock_ctor_explicit G index (L_central b - L_sigma_lower b) (L_central b)
            (L_central b + L_sigma_upper b) (L_lambda b) (L_alpha b) (L_number_of_observations b)"
    using assms(3) by (auto simp: LogGammaBlock_clone_def Let_def split: prod.splits)
  show "cache_extends tgt tgt'"
    using cache_extends_add [OF add] by simp
  have id: "L_id b < length (cache_observables src)"
    and nu: "L_nu b = L_central b - L_lambda b * ln (L_alpha b)"
    and norm: "L_norm b = - 1 * gsl_sf_lngamma G (L_alpha b) - ln \<bar>L_lambda b\<bar>"
    using assms(1) by simp_all
  have same: "b\<lparr>L_id := index\<rparr> = \<lparr>L_id = index, L_central = L_central b,
      L_sigma_lower = L_central b - (L_central b - L_sigma_lower b),
      L_sigma_upper = L_central b + L_sigma_upper b - L_central b,
      L_nu = L_central b - L_lambda b * ln (L_alpha b), L_lambda = L_lambda b, L_alpha = L_alpha b,
      L_norm = - 1 * gsl_sf_lngamma G (L_alpha b) - ln \<bar>L_lambda b\<bar>,
      L_number_of_observations = L_number_of_observations b\<rparr>"
    using nu norm by (cases b) simp
  have cdf: "LogGammaBlock_cdf G (b\<lparr>L_id := index\<rparr>) x = LogGammaBlock_cdf G b x" for x
    by (simp add: LogGammaBlock_cdf_def Let_def cong: if_cong)
  have r': "r = (if LogGammaBlock_calibrated G b then Inr (b\<lparr>L_id := index\<rparr>)
                 else if \<bar>LogGammaBlock_cdf G b (L_central b + L_sigma_upper b)
                        - LogGammaBlock_cdf G b (L_central b - L_sigma_lower b) - one_sigma_coverage\<bar> > 1 / 10 ^ 4
                 then Inl (InternalError ''LogLikelihoodBlock::LogGamma.ctor: the interval [lower, upper] doesn't contain approx. 68%'')
                 else Inl (InternalError ''LogLikelihoodBlock::LogGamma.ctor: the probability density at lower is not equal to the probability density at upper''))"
    unfolding r LogGammaBlock_ctor_explicit_def same [symmetric] Let_def
    by (simp add: cdf LogGammaBlock_calibrated_def not_less)
  show "(\<exists>e. r = Inl e) \<longleftrightarrow> \<not> LogGammaBlock_calibrated G b"
    by (simp add: r')
  show "\<exists>msg. e = InternalError msg" if "r = Inl e"
    using that by (auto simp: r' split: if_splits)
  assume "r = Inr b'" and ext: "cache_extends tgt' c"
  then have b': "b' = b\<lparr>L_id := index\<rparr>"
    by (simp add: r' split: if_splits)
  show "LogGammaBlock_evaluate (ObservableCache_update c) b' = LogGammaBlock_evaluate (ObservableCache_update src) b"
    using cloned_observable_value [OF add assms(2) id ext]
    by (simp add: LogGammaBlock_evaluate_def b')
qed

lemma AmorosoBlock_clone_sound:
  assumes "constructed G src (Block_Amoroso b)" and "cache_parameters tgt = cache_parameters src"
    and "AmorosoBlock_clone G src b tgt = (r, tgt')"
  shows "cache_extends tgt tgt'"
    and "\<exists>b'. r = Inr b'"
    and "r = Inr b' \<Longrightarrow> cache_extends tgt' c \<Longrightarrow>
           AmorosoBlock_evaluate (ObservableCache_update c) b' = AmorosoBlock_evaluate (ObservableCache_update src) b"
proof -
  obtain index where add: "ObservableCache_add tgt
      (Observable_clone (ObservableCache_observable src (A_id b)) (cache_parameters tgt)) = (index, tgt')"
    and r: "r = AmorosoBlock_ctor G index (A_physical_limit b) (A_theta b) (A_alpha b) (A_beta b)
            (A_number_of_observations b)"
    using assms(3) by (auto simp: AmorosoBlock_clone_def Let_def split: prod.splits)
  show "cache_extends tgt tgt'"
    using cache_extends_add [OF add] by simp
  have id: "A_id b < length (cache_observables src)"
    and b: "AmorosoBlock_ctor G (A_id b) (A_physical_limit b) (A_theta b) (A_alpha b) (A_beta b)
          (A_number_of_observations b) = Inr b"
    using assms(1) by simp_all
  have r': "r = Inr (b\<lparr>A_id := index\<rparr>)"
    using b unfolding r AmorosoBlock_ctor_def by (cases b) (auto split: if_splits)
  show "\<exists>b'. r = Inr b'"
    using r' by simp
  assume "r = Inr b'" and ext: "cache_extends tgt' c"
  then have b': "b' = b\<lparr>A_id := index\<rparr>"
    using r' by simp
  show "AmorosoBlock_evaluate (ObservableCache_update c) b' = AmorosoBlock_evaluate (ObservableCache_update src) b"
    using cloned_observable_value [OF add assms(2) id ext]
    by (simp add: AmorosoBlock_evaluate_def b')
qed

lemma register_observables_result:
  "register_observables c os = (ids, c') \<Longrightarrow>
     ids = [length (cache_observables c) ..< length (cache_observables c) + length os]
     \<and> cache_observables c' = cache_observables c @ os
     \<and> cache_parameters c' = cache_parameters c"
proof (induction os arbitrary: c ids c')
  case Nil
  then show ?case by simp
next
  case (Cons observable os)
  obtain index c1 where add: "ObservableCache_add c observable = (index, c1)"
    by (cases "ObservableCache_add c observable")
  obtain indices c2 where rest: "register_observables c1 os = (indices, c2)"
    by (cases "register_observables c1 os")
  from Cons.prems add rest have ids: "ids = index # indices" and c': "c' = c2"
    by simp_all
  from add have index: "index = length (cache_observables c)"
    and c1: "cache_observables c1 = cache_observables c @ [observable]"
      "cache_parameters c1 = cache_parameters c"
    by (auto simp: ObservableCache_add_def)
  from Cons.IH [OF rest] c1
  have "indices = [Suc (length (cache_observables c)) ..< Suc (length (cache_observables c)) + length os]"
    and "cache_observables c2 = cache_observables c @ observable # os"
    and "cache_parameters c2 = cache_parameters c"
    by (simp_all del: upt_Suc)
  then show ?case
    by (simp add: ids c' index upt_conv_Cons del: upt_Suc)
qed

lemma MultivariateGaussianBlock_ctor_Inr:
  "MultivariateGaussianBlock_ctor G ids mean covariance n = Inr b \<Longrightarrow>
     length ids = length mean
     \<and> gsl_matrix_size1 covariance = gsl_matrix_size2 covariance
     \<and> length ids = gsl_matrix_size1 covariance
     \<and> M_ids b = ids \<and> M_mean b = mean \<and> M_covariance b = covariance \<and> M_number_of_observations b = n"
  by (auto simp: MultivariateGaussianBlock_ctor_def Let_def split: if_splits)

lemma MultivariateGaussianBlock_ctor_other_ids:
  assumes "MultivariateGaussianBlock_ctor G ids mean covariance n = Inr b" and "length ids' = length ids"
  shows "MultivariateGaussianBlock_ctor G ids' mean covariance n = Inr (b\<lparr>M_ids := ids'\<rparr>)"
  using assms by (auto simp: MultivariateGaussianBlock_ctor_def Let_def split: if_splits)

lemma MultivariateGaussianBlock_clone_sound:
  assumes "constructed G src (Block_MultivariateGaussian b)" and "cache_parameters tgt = cache_parameters src"
    and "MultivariateGaussianBlock_clone G src b tgt = (r, tgt')"
  shows "cache_extends tgt tgt'"
    and "\<exists>b'. r = Inr b'"
    and "r = Inr b' \<Longrightarrow> cache_extends tgt' c \<Longrightarrow>
           MultivariateGaussianBlock_evaluate (ObservableCache_update c) b'
             = MultivariateGaussianBlock_evaluate (ObservableCache_update src) b"
proof -
  let ?k = "length (M_mean b)"
  let ?os = "map (\<lambda>i. Observable_clone (ObservableCache_observable src (M_ids b ! i)) (cache_parameters tgt))
               [0 ..< ?k]"
  have valid: "list_all (\<lambda>i. i < length (cache_observables src)) (M_ids b)"
    and b: "MultivariateGaussianBlock_ctor G (M_ids b) (M_mean b) (M_covariance b)
          (M_number_of_observations b) = Inr b"
    using assms(1) by simp_all
  have k: "length (M_ids b) = ?k"
    using MultivariateGaussianBlock_ctor_Inr [OF b] by simp
  obtain ids where reg: "register_observables tgt ?os = (ids, tgt')"
    and r: "r = MultivariateGaussianBlock_ctor G ids (M_mean b) (M_covariance b) (M_number_of_observations b)"
    using assms(3) by (auto simp: MultivariateGaussianBlock_clone_def Let_def split: prod.splits)
  from register_observables_result [OF reg]
  have ids: "ids = [length (cache_observables tgt) ..< length (cache_observables tgt) + ?k]"
    and obs: "cache_observables tgt' = cache_observables tgt @ ?os"
    and par: "cache_parameters tgt' = cache_parameters tgt"
    by simp_all
  show "cache_extends tgt tgt'"
    by (simp add: cache_extends_def obs par)
  have r': "r = Inr (b\<lparr>M_ids := ids\<rparr>)"
    unfolding r by (rule MultivariateGaussianBlock_ctor_other_ids [OF b]) (simp add: ids k)
  then show "\<exists>b'. r = Inr b'"
    by simp
  assume "r = Inr b'" and ext: "cache_extends tgt' c"
  then have b': "b' = b\<lparr>M_ids := ids\<rparr>"
    using r' by simp
  have cached: "ObservableCache_index (ObservableCache_update c) (ids ! i)
      = ObservableCache_index (ObservableCache_update src) (M_ids b ! i)" if i: "i < ?k" for i
  proof -
    let ?j = "length (cache_observables tgt) + i"
    have idsi: "ids ! i = ?j"
      using i by (simp add: ids)
    have lt: "?j < length (cache_observables tgt')"
      using i by (simp add: obs)
    then have "?j < length (cache_observables c)"
      using cache_extends_length [OF ext] by simp
    moreover have "cache_observables c ! ?j = cache_observables src ! (M_ids b ! i)"
      using cache_extends_nth [OF ext lt] i
      by (simp add: obs nth_append Observable_clone_def ObservableCache_observable_def)
    moreover have "cache_parameters c = cache_parameters src"
      using ext par assms(2) by (simp add: cache_extends_def)
    moreover have "M_ids b ! i < length (cache_observables src)"
      using valid i k by (simp add: list_all_length)
    ultimately show ?thesis
      by (simp add: idsi ObservableCache_index_update)
  qed
  have "map (\<lambda>i. ObservableCache_index (ObservableCache_update c) (ids ! i)) [0 ..< ?k]
      = map (\<lambda>i. ObservableCache_index (ObservableCache_update src) (M_ids b ! i)) [0 ..< ?k]"
    by (rule map_cong) (simp_all add: cached)
  moreover have "M_ids b' = ids" "M_mean b' = M_mean b" "M_covariance_inv b' = M_covariance_inv b"
    "M_norm b' = M_norm b"
    by (simp_all add: b')
  ultimately show "MultivariateGaussianBlock_evaluate (ObservableCache_update c) b'
      = MultivariateGaussianBlock_evaluate (ObservableCache_update src) b"
    by (simp only: MultivariateGaussianBlock_evaluate_def MultivariateGaussianBlock_chi_square_def)
qed

lemma clone_sound:
  "constructed G src b \<Longrightarrow> cache_parameters tgt = cache_parameters src \<Longrightarrow>
     cache_extends tgt (snd (clone G src b tgt))
     \<and> (case fst (clone G src b tgt) of
          Inl e \<Rightarrow> \<not> calibrated G b \<and> (\<exists>msg. e = InternalError msg)
        | Inr b' \<Rightarrow>
            calibrated G b
            \<and> (\<forall>c. cache_extends (snd (clone G src b tgt)) c \<longrightarrow>
                 evaluate (ObservableCache_update c) b' = evaluate (ObservableCache_update src) b))"
  and "list_all (constructed G src) cs \<Longrightarrow> cache_parameters tgt = cache_parameters src \<Longrightarrow>
     cache_extends tgt (snd (clone_components G src cs tgt))
     \<and> (case fst (clone_components G src cs tgt) of
          Inl e \<Rightarrow> \<not> list_all (calibrated G) cs \<and> (\<exists>msg. e = InternalError msg)
        | Inr cs' \<Rightarrow>
            list_all (calibrated G) cs
            \<and> (\<forall>c. cache_extends (snd (clone_components G src cs tgt)) c \<longrightarrow>
                 map (evaluate (ObservableCache_update c)) cs' = map (evaluate (ObservableCache_update src)) cs))"
proof (induction G src b tgt and G src cs tgt rule: clone_clone_components.induct)
  case (1 G src b tgt)
  obtain b' tgt' where c: "GaussianBlock_clone src b tgt = (b', tgt')"
    by (cases "GaussianBlock_clone src b tgt")
  from GaussianBlock_clone_sound [OF "1.prems" c] c show ?case
    by simp
next
  case (2 G src b tgt)
  obtain r tgt' where c: "LogGammaBlock_clone G src b tgt = (r, tgt')"
    by (cases "LogGammaBlock_clone G src b tgt")
  from LogGammaBlock_clone_sound [OF "2.prems" c] c show ?case
    by (cases r) auto
next
  case (3 G src b tgt)
  obtain r tgt' where c: "AmorosoBlock_clone G src b tgt = (r, tgt')"
    by (cases "AmorosoBlock_clone G src b tgt")
  from AmorosoBlock_clone_sound [OF "3.prems" c] c show ?case
    by (cases r) auto
next
  case (4 G src components weights tgt)
  obtain r tgt' where c: "clone_components G src components tgt = (r, tgt')"
    by (cases "clone_components G src components tgt")
  from "4.prems" have "list_all (constructed G src) components"
    by simp
  from "4.IH" [OF this "4.prems"(2)] c show ?case
    by (cases r) auto
next
  case (5 G src b tgt)
  obtain r tgt' where c: "MultivariateGaussianBlock_clone G src b tgt = (r, tgt')"
    by (cases "MultivariateGaussianBlock_clone G src b tgt")
  from MultivariateGaussianBlock_clone_sound [OF "5.prems" c] c show ?case
    by (cases r) auto
next
  case (6 G src tgt)
  show ?case
    by (simp add: cache_extends_refl)
next
  case (7 G src b bs tgt)
  obtain r tgt1 where c1: "clone G src b tgt = (r, tgt1)"
    by (cases "clone G src b tgt")
  from "7.prems" have built: "constructed G src b" "list_all (constructed G src) bs"
    by simp_all
  from "7.IH"(1) [OF built(1) "7.prems"(2)] c1
  have ext1: "cache_extends tgt tgt1"
    and first: "case r of Inl e \<Rightarrow> \<not> calibrated G b \<and> (\<exists>msg. e = InternalError msg)
        | Inr b' \<Rightarrow> calibrated G b
            \<and> (\<forall>c. cache_extends tgt1 c \<longrightarrow>
                 evaluate (ObservableCache_update c) b' = evaluate (ObservableCache_update src) b)"
    by (auto split: sum.splits)
  show ?case
  proof (cases r)
    case (Inl e)
    with c1 first ext1 show ?thesis
      by simp
  next
    case (Inr b')
    obtain rs tgt2 where c2: "clone_components G src bs tgt1 = (rs, tgt2)"
      by (cases "clone_components G src bs tgt1")
    have par1: "cache_parameters tgt1 = cache_parameters src"
      using ext1 "7.prems"(2) by (simp add: cache_extends_def)
    from "7.IH"(2) [OF c1 [symmetric] Inr built(2) par1] c2
    have ext2: "cache_extends tgt1 tgt2"
      and rest: "case rs of Inl e \<Rightarrow> \<not> list_all (calibrated G) bs \<and> (\<exists>msg. e = InternalError msg)
        | Inr cs' \<Rightarrow> list_all (calibrated G) bs
            \<and> (\<forall>c. cache_extends tgt2 c \<longrightarrow>
                 map (evaluate (ObservableCache_update c)) cs' = map (evaluate (ObservableCache_update src)) bs)"
      by (auto split: sum.splits)
    have ext: "cache_extends tgt tgt2"
      using ext1 ext2 by (rule cache_extends_trans)
    show ?thesis
    proof (cases rs)
      case (Inl e)
      with c1 c2 Inr rest ext show ?thesis
        by simp
    next
      case rs: (Inr cs')
      have "evaluate (ObservableCache_update c) b' = evaluate (ObservableCache_update src) b"
        if "cache_extends tgt2 c" for c
        using first Inr cache_extends_trans [OF ext2 that] by simp
      with c1 c2 Inr rs rest first ext show ?thesis
        by simp
    qed
  qed
qed

text \<open>
  Claim C7, as the code has it. Let a block be constructed on a cache, and clone it onto a
  cache with the same parameter values. If every LogGamma block in it is calibrated, as all
  blocks without a LogGamma block are, \<open>clone\<close> returns a block, and once the caches are
  up to date \<open>evaluate()\<close> of the clone on its cache equals \<open>evaluate()\<close> of the original
  on its own. If some LogGamma block in it is not calibrated, \<open>clone\<close> throws: the clone of a
  LogGamma block is made by the second constructor, which checks the shape parameters.
\<close>

theorem clone_preserves_evaluate:
  assumes "constructed G src b" and "cache_parameters tgt = cache_parameters src"
  shows "(calibrated G b \<longrightarrow>
            (\<exists>b'. fst (clone G src b tgt) = Inr b'
                \<and> evaluate (ObservableCache_update (snd (clone G src b tgt))) b'
                    = evaluate (ObservableCache_update src) b))
       \<and> (\<not> calibrated G b \<longrightarrow> (\<exists>msg. fst (clone G src b tgt) = Inl (InternalError msg)))"
proof (cases "fst (clone G src b tgt)")
  case (Inl e)
  with clone_sound(1) [OF assms] show ?thesis
    by auto
next
  case (Inr b')
  with clone_sound(1) [OF assms]
  have "calibrated G b"
    and "cache_extends (snd (clone G src b tgt)) c \<longrightarrow>
           evaluate (ObservableCache_update c) b' = evaluate (ObservableCache_update src) b" for c
    by simp_all
  with Inr cache_extends_refl [of "snd (clone G src b tgt)"] show ?thesis
    by auto
qed

theorem clone_preserves_evaluate_witness:
  "\<exists>b'. fst (clone gsl_at_shape_one
              \<lparr>cache_parameters = 2, cache_observables = [\<lambda>p. p, \<lambda>p. p * p], cache_predictions = (\<lambda>i. 0)\<rparr>
              (MixtureBlock
                 [Block_Gaussian (GaussianBlock_ctor 0 0 1 3 1),
                  Block_Amoroso \<lparr>A_id = 1, A_physical_limit = 0, A_theta = 1, A_alpha = 1, A_beta = 1,
                                 A_norm = 0, A_number_of_observations = 1\<rparr>]
                 [1 / 2, 1 / 2])
              \<lparr>cache_parameters = 2, cache_observables = [\<lambda>p. 0], cache_predictions = (\<lambda>i. 0)\<rparr>)
         = Inr b'
      \<and> evaluate
           (ObservableCache_update
              (snd (clone gsl_at_shape_one
                 \<lparr>cache_parameters = 2, cache_observables = [\<lambda>p. p, \<lambda>p. p * p], cache_predictions = (\<lambda>i. 0)\<rparr>
                 (MixtureBlock
                    [Block_Gaussian (GaussianBlock_ctor 0 0 1 3 1),
                     Block_Amoroso \<lparr>A_id = 1, A_physical_limit = 0, A_theta = 1, A_alpha = 1, A_beta = 1,
                                    A_norm = 0, A_number_of_observations = 1\<rparr>]
                    [1 / 2, 1 / 2])
                 \<lparr>cache_parameters = 2, cache_observables = [\<lambda>p. 0], cache_predictions = (\<lambda>i. 0)\<rparr>)))
           b'
         = evaluate
             (ObservableCache_update
                \<lparr>cache_parameters = 2, cache_observables = [\<lambda>p. p, \<lambda>p. p * p], cache_predictions = (\<lambda>i. 0)\<rparr>)
             (MixtureBlock
                [Block_Gaussian (GaussianBlock_ctor 0 0 1 3 1),
                 Block_Amoroso \<lparr>A_id = 1, A_physical_limit = 0, A_theta = 1, A_alpha = 1, A_beta = 1,
                                A_norm = 0, A_number_of_observations = 1\<rparr>]
                [1 / 2, 1 / 2])"
proof -
  let ?src = "\<lparr>cache_parameters = 2 :: real, cache_observables = [\<lambda>p. p, \<lambda>p. p * p],
               cache_predictions = (\<lambda>i. 0)\<rparr>"
  let ?tgt = "\<lparr>cache_parameters = 2 :: real, cache_observables = [\<lambda>p. 0], cache_predictions = (\<lambda>i. 0)\<rparr>"
  let ?b = "MixtureBlock
                 [Block_Gaussian (GaussianBlock_ctor 0 0 1 3 1),
                  Block_Amoroso \<lparr>A_id = 1, A_physical_limit = 0, A_theta = 1, A_alpha = 1, A_beta = 1,
                                 A_norm = 0, A_number_of_observations = 1\<rparr>]
                 [1 / 2, 1 / 2]"
  have built: "constructed gsl_at_shape_one ?src ?b"
    by (simp add: GaussianBlock_ctor_def AmorosoBlock_ctor_def gsl_at_shape_one_def)
  have par: "cache_parameters ?tgt = cache_parameters ?src"
    by simp
  have cal: "calibrated gsl_at_shape_one ?b"
    by simp
  from clone_preserves_evaluate [OF built par] cal show ?thesis
    by blast
qed

text \<open>
  Claim C7 as stated fails for the LogGamma block. The first constructor takes the shape
  parameters that the equation solver returns, whether or not the solver reports a valid
  solution, and checks nothing. Here the solver has failed, the factory returns a block
  with \<open>lambda = - 1\<close> and \<open>alpha = 1\<close> for the bounds \<open>- 10\<close>, \<open>0\<close>, \<open>20\<close>, where
  \<open>Q(1, z) = exp (- z)\<close>, and \<open>clone\<close> of that block onto a cache with the same parameters
  throws: between the bounds lie more than 86% of the mass, not 68%.
\<close>

theorem LogGamma_clone_throws:
  "fst (LogLikelihoodBlock_LogGamma gsl_at_shape_one
          (\<lambda>parameters constraint.
              Inr \<lparr>solution_valid = False, solution_value = 1, solution_parameters = [- 1 / 10, 1]\<rparr>)
          \<lparr>cache_parameters = (), cache_observables = [], cache_predictions = (\<lambda>i. 0)\<rparr>
          (\<lambda>p. 0) (- 10) 0 20 1)
     = Inr \<lparr>L_id = 0, L_central = 0, L_sigma_lower = 10, L_sigma_upper = 20, L_nu = 0, L_lambda = - 1,
            L_alpha = 1, L_norm = 0, L_number_of_observations = 1\<rparr>
   \<and> fst (clone gsl_at_shape_one
             \<lparr>cache_parameters = (), cache_observables = [\<lambda>p. 0], cache_predictions = (\<lambda>i. 0)\<rparr>
             (Block_LogGamma
                \<lparr>L_id = 0, L_central = 0, L_sigma_lower = 10, L_sigma_upper = 20, L_nu = 0,
                 L_lambda = - 1, L_alpha = 1, L_norm = 0, L_number_of_observations = 1\<rparr>)
             \<lparr>cache_parameters = (), cache_observables = [], cache_predictions = (\<lambda>i. 0)\<rparr>)
       = Inl (InternalError ''LogLikelihoodBlock::LogGamma.ctor: the interval [lower, upper] doesn't contain approx. 68%'')"
proof -
  have "\<bar>exp (- exp (- 20)) - exp (- exp 10) - one_sigma_coverage\<bar> > (1 / 10 ^ 4 :: real)"
    using gumbel_mass_bound by (simp add: one_sigma_coverage_def)
  then show ?thesis
    by (simp add: LogLikelihoodBlock_LogGamma_def LogGammaBlock_ctor_def ObservableCache_add_def
        LogGammaBlock_clone_def LogGammaBlock_ctor_explicit_def LogGammaBlock_cdf_def
        Observable_clone_def ObservableCache_observable_def gsl_at_shape_one_def Let_def)
qed

end
